theory Spec2Isabelle
  imports Main
begin

section \<open>The ToggleInput custom element (src/toggle-input.js)\<close>

text \<open>
  The class \<open>ToggleInput\<close> keeps its state in three places: the attribute list of the
  host element, the checkbox \<open>this._native\<close> in its shadow tree, and either an
  \<open>ElementInternals\<close> object or a hidden input appended to the enclosing form.  Each
  method is embedded as a function from the state before the call to the state after
  it.  Identifiers that start with an underscore in the source lose it here.

  What the browser does on behalf of the element is written out where the element
  uses it:
  \<^item> \<open>setAttribute\<close> and \<open>removeAttribute\<close> on the host run
    \<open>attributeChangedCallback\<close> before they return when the attribute is one of
    \<open>observedAttributes\<close>;
  \<open>removeAttribute\<close> of an attribute that is absent does nothing;
  \<^item> \<open>click()\<close> on a checkbox does nothing when the checkbox is disabled; otherwise it
    inverts the checkedness, sets \<open>indeterminate\<close> to false and then, when the checkbox
    is connected, fires \<open>input\<close> followed by \<open>change\<close> at it;
  \<^item> the \<open>name\<close> and \<open>value\<close> properties of an input of type hidden reflect its
    content attributes.

  An element starts from the constructor, on an element without attributes whose
  attributes then arrive through \<open>setAttribute\<close>, or from the upgrade of an element
  that has its attributes already.  Forms are told apart by a number: the state holds
  the form that \<open>closest('form')\<close> finds, the form the hidden input was appended to,
  and the forms on which the reset listener is registered.  \<open>focus()\<close> and \<open>blur()\<close> only move the focus
  to or from the shadow button, \<open>reportValidity()\<close> shows an alert; they touch nothing
  of the state below and are left out.
\<close>

subsection \<open>Data\<close>

type_synonym attributes = "string \<rightharpoonup> string"

text \<open>A form element of the page.\<close>

type_synonym form_id = nat

text \<open>The native checkbox \<open>this._native\<close>: the properties the class reads and writes.\<close>

record native_checkbox =
  n_checked :: bool
  n_disabled :: bool
  n_name :: string
  n_value :: string
  n_indeterminate :: bool

text \<open>
  \<open>this._internals\<close>: the value given to \<open>setFormValue\<close> (\<open>None\<close> for null) and what
  \<open>setValidity\<close> stored.
\<close>

record element_internals =
  formValue :: "string option"
  valueMissing :: bool
  customError :: bool
  validationMessage :: string

text \<open>
  \<open>this._hiddenInput\<close>: the content attributes of the fallback input and its
  \<open>parentNode\<close>, the form it was appended to.
\<close>

record hidden_input =
  h_name :: "string option"
  h_value :: "string option"
  h_parent :: "form_id option"

text \<open>An event given to \<open>this.dispatchEvent\<close>: type, bubbles, composed, cancelable.\<close>

datatype event = Event string bool bool bool

text \<open>
  Own properties set on the element before it was upgraded, which
  \<open>_upgradeProperty\<close> replays through the setters.  A boolean stands for the
  truthiness of the assigned value, \<open>None\<close> inside for null or undefined.
\<close>

record own_props =
  own_checked :: "bool option"
  own_disabled :: "bool option"
  own_name :: "string option option"
  own_value :: "string option option"
  own_indeterminate :: "bool option"

record toggle_input =
  attrs :: attributes
  native :: native_checkbox
  buttonClasses :: "string list"
  internals :: "element_internals option"
  hiddenInput :: "hidden_input option"
  customValidity :: string
  defaultChecked :: bool
  defaultIndeterminate :: bool
  own :: own_props
  isConnected :: bool
  form :: "form_id option"
  listening :: bool
  resetForms :: "form_id list"
  dispatched :: "event list"

definition observedAttributes :: "string list" where
  "observedAttributes =
     [''checked'', ''disabled'', ''name'', ''value'', ''aria-label'', ''required'',
      ''indeterminate'', ''autofocus'', ''tabindex'']"

subsection \<open>Attributes and properties of the host\<close>

definition hasAttribute :: "toggle_input \<Rightarrow> string \<Rightarrow> bool" where
  "hasAttribute s n = (attrs s n \<noteq> None)"

definition getAttribute :: "toggle_input \<Rightarrow> string \<Rightarrow> string option" where
  "getAttribute s n = attrs s n"

text \<open>The change of the attribute list alone, before any callback.\<close>

definition storeAttribute :: "string \<Rightarrow> string \<Rightarrow> toggle_input \<Rightarrow> toggle_input" where
  "storeAttribute n v s = s\<lparr>attrs := (attrs s)(n \<mapsto> v)\<rparr>"

definition dropAttribute :: "string \<Rightarrow> toggle_input \<Rightarrow> toggle_input" where
  "dropAttribute n s = s\<lparr>attrs := (attrs s)(n := None)\<rparr>"

definition classAdd :: "string \<Rightarrow> toggle_input \<Rightarrow> toggle_input" where
  "classAdd c s =
     (if c \<in> set (buttonClasses s) then s else s\<lparr>buttonClasses := buttonClasses s @ [c]\<rparr>)"

definition classRemove :: "string \<Rightarrow> toggle_input \<Rightarrow> toggle_input" where
  "classRemove c s = s\<lparr>buttonClasses := removeAll c (buttonClasses s)\<rparr>"

definition get_checked :: "toggle_input \<Rightarrow> bool" where
  "get_checked s = n_checked (native s)"

definition get_disabled :: "toggle_input \<Rightarrow> bool" where
  "get_disabled s = n_disabled (native s)"

definition get_name :: "toggle_input \<Rightarrow> string option" where
  "get_name s = getAttribute s ''name''"

definition get_value :: "toggle_input \<Rightarrow> string" where
  "get_value s = (case getAttribute s ''value'' of None \<Rightarrow> ''on'' | Some v \<Rightarrow> v)"

definition get_required :: "toggle_input \<Rightarrow> bool" where
  "get_required s = hasAttribute s ''required''"

definition get_indeterminate :: "toggle_input \<Rightarrow> bool" where
  "get_indeterminate s = n_indeterminate (native s)"

text \<open>JavaScript's \<open>x || ''\<close> and the truthiness of a string or null.\<close>

definition orEmpty :: "string option \<Rightarrow> string" where
  "orEmpty x = (case x of None \<Rightarrow> [] | Some v \<Rightarrow> v)"

definition truthy :: "string option \<Rightarrow> bool" where
  "truthy x = (case x of None \<Rightarrow> False | Some v \<Rightarrow> v \<noteq> [])"

definition dispatchEvent :: "event \<Rightarrow> toggle_input \<Rightarrow> toggle_input" where
  "dispatchEvent e s = s\<lparr>dispatched := dispatched s @ [e]\<rparr>"

text \<open>\<open>focus()\<close> moves the focus to the shadow button and changes nothing modelled here.\<close>

definition focus :: "toggle_input \<Rightarrow> toggle_input" where
  "focus s = s"

subsection \<open>Rendering, form value and validity\<close>

text \<open>
  \<open>_render\<close>.  The three attributes it writes are not observed, so no callback runs.
\<close>

definition render :: "toggle_input \<Rightarrow> toggle_input" where
  "render s =
     (let checked = n_checked (native s);
          disabled = n_disabled (native s);
          required = get_required s;
          indeterminate = n_indeterminate (native s);
          s1 = storeAttribute ''aria-checked''
                 (if indeterminate then ''mixed'' else if checked then ''true'' else ''false'') s;
          s2 = (if disabled then storeAttribute ''aria-disabled'' ''true'' s1
                else dropAttribute ''aria-disabled'' s1);
          s3 = (if required then storeAttribute ''aria-required'' ''true'' s2
                else dropAttribute ''aria-required'' s2);
          s4 = (if indeterminate then classRemove ''on'' (classAdd ''indeterminate'' s3)
                else if checked then classRemove ''indeterminate'' (classAdd ''on'' s3)
                else classRemove ''indeterminate'' (classRemove ''on'' s3))
      in if disabled then classAdd ''disabled'' s4 else classRemove ''disabled'' s4)"

text \<open>Lines 317 to 323 of \<open>_updateHiddenInput\<close>, for a hidden input that exists.\<close>

definition writeHiddenInput :: "toggle_input \<Rightarrow> toggle_input" where
  "writeHiddenInput s =
     (case hiddenInput s of
        None \<Rightarrow> s
      | Some h \<Rightarrow>
          if n_checked (native s)
          then s\<lparr>hiddenInput :=
                   Some (h\<lparr>h_name := Some (orEmpty (get_name s)), h_value := Some (get_value s)\<rparr>)\<rparr>
          else s\<lparr>hiddenInput := Some (h\<lparr>h_name := None, h_value := None\<rparr>)\<rparr>)"

text \<open>
  \<open>_ensureHiddenInput\<close>.  Its call of \<open>_updateHiddenInput\<close> happens with the hidden
  input just created, so only the writing part of that method runs.
\<close>

definition ensureHiddenInput :: "toggle_input \<Rightarrow> toggle_input" where
  "ensureHiddenInput s =
     (if \<not> isConnected s then s
      else if form s = None \<and> hiddenInput s \<noteq> None then s\<lparr>hiddenInput := None\<rparr>
      else if internals s = None \<and> form s \<noteq> None \<and> hiddenInput s = None
              \<and> truthy (get_name s)
      then writeHiddenInput
             (s\<lparr>hiddenInput :=
                  Some \<lparr>h_name = get_name s, h_value = None, h_parent = form s\<rparr>\<rparr>)
      else s)"

definition updateHiddenInput :: "toggle_input \<Rightarrow> toggle_input" where
  "updateHiddenInput s =
     (if hiddenInput s = None
      then (let s1 = ensureHiddenInput s
            in if hiddenInput s1 = None then s1 else writeHiddenInput s1)
      else writeHiddenInput s)"

definition updateFormValue :: "toggle_input \<Rightarrow> toggle_input" where
  "updateFormValue s =
     (case internals s of
        Some i \<Rightarrow>
          if n_checked (native s) then s\<lparr>internals := Some (i\<lparr>formValue := Some (get_value s)\<rparr>)\<rparr>
          else s\<lparr>internals := Some (i\<lparr>formValue := None\<rparr>)\<rparr>
      | None \<Rightarrow> updateHiddenInput s)"

definition updateValidity :: "toggle_input \<Rightarrow> toggle_input" where
  "updateValidity s =
     (let isValueMissing = (get_required s \<and> \<not> n_checked (native s))
      in case internals s of
           Some i \<Rightarrow>
             if isValueMissing \<or> customValidity s \<noteq> []
             then s\<lparr>internals := Some (i\<lparr>valueMissing := isValueMissing,
                        customError := (customValidity s \<noteq> []),
                        validationMessage :=
                          (if customValidity s \<noteq> [] then customValidity s
                           else ''This checkbox cannot be left unchecked.'')\<rparr>)\<rparr>
             else s\<lparr>internals := Some (i\<lparr>valueMissing := False, customError := False,
                        validationMessage := []\<rparr>)\<rparr>
         | None \<Rightarrow>
             if isValueMissing \<or> customValidity s \<noteq> []
             then storeAttribute ''aria-invalid'' ''true'' s
             else dropAttribute ''aria-invalid'' s)"

text \<open>\<open>this._internals.validity.valid\<close>: no flag of the validity state is set.\<close>

definition valid :: "element_internals \<Rightarrow> bool" where
  "valid i = (\<not> valueMissing i \<and> \<not> customError i)"

subsection \<open>The attribute callback and the host's attribute methods\<close>

text \<open>Lines 164 to 168: the changed attribute is copied to the native checkbox.\<close>

definition mirrorAttribute :: "string \<Rightarrow> toggle_input \<Rightarrow> toggle_input" where
  "mirrorAttribute name s =
     (let s1 = (if name = ''checked''
                then s\<lparr>native := (native s)\<lparr>n_checked := hasAttribute s ''checked''\<rparr>\<rparr> else s);
          s2 = (if name = ''disabled''
                then s1\<lparr>native := (native s1)\<lparr>n_disabled := hasAttribute s1 ''disabled''\<rparr>\<rparr>
                else s1);
          s3 = (if name = ''name''
                then s2\<lparr>native := (native s2)\<lparr>n_name := orEmpty (getAttribute s2 ''name'')\<rparr>\<rparr>
                else s2);
          s4 = (if name = ''value''
                then s3\<lparr>native := (native s3)\<lparr>n_value :=
                        (case getAttribute s3 ''value'' of None \<Rightarrow> ''on'' | Some v \<Rightarrow> v)\<rparr>\<rparr>
                else s3)
      in if name = ''indeterminate''
         then s4\<lparr>native := (native s4)\<lparr>n_indeterminate := hasAttribute s4 ''indeterminate''\<rparr>\<rparr>
         else s4)"

definition attributeChangedCallback ::
  "string \<Rightarrow> string option \<Rightarrow> string option \<Rightarrow> toggle_input \<Rightarrow> toggle_input" where
  "attributeChangedCallback name oldVal newVal s =
     (if oldVal = newVal then s
      else
        let s6 = render (mirrorAttribute name s);
            s7 = (if name = ''name'' \<or> name = ''value'' \<or> name = ''checked''
                     \<or> name = ''indeterminate''
                  then updateFormValue (updateHiddenInput s6) else s6);
            s8 = (if name = ''required'' \<or> name = ''checked'' \<or> name = ''aria-label''
                  then updateValidity s7 else s7)
        in if name = ''autofocus'' \<and> hasAttribute s8 ''autofocus'' then focus s8 else s8)"

text \<open>
  \<open>this.setAttribute\<close> and \<open>this.removeAttribute\<close> as the page and the class itself
  call them: the attribute list changes, then the callback runs for an observed name.
\<close>

definition setAttribute :: "string \<Rightarrow> string \<Rightarrow> toggle_input \<Rightarrow> toggle_input" where
  "setAttribute n v s =
     (if n \<in> set observedAttributes
      then attributeChangedCallback n (attrs s n) (Some v) (storeAttribute n v s)
      else storeAttribute n v s)"

definition removeAttribute :: "string \<Rightarrow> toggle_input \<Rightarrow> toggle_input" where
  "removeAttribute n s =
     (if attrs s n = None then s
      else if n \<in> set observedAttributes
      then attributeChangedCallback n (attrs s n) None (dropAttribute n s)
      else dropAttribute n s)"

definition set_checked :: "bool \<Rightarrow> toggle_input \<Rightarrow> toggle_input" where
  "set_checked val s = (if val then setAttribute ''checked'' [] s else removeAttribute ''checked'' s)"

definition set_disabled :: "bool \<Rightarrow> toggle_input \<Rightarrow> toggle_input" where
  "set_disabled val s =
     (if val then setAttribute ''disabled'' [] s else removeAttribute ''disabled'' s)"

definition set_name :: "string option \<Rightarrow> toggle_input \<Rightarrow> toggle_input" where
  "set_name v s =
     (case v of None \<Rightarrow> removeAttribute ''name'' s | Some x \<Rightarrow> setAttribute ''name'' x s)"

definition set_value :: "string option \<Rightarrow> toggle_input \<Rightarrow> toggle_input" where
  "set_value v s =
     (case v of None \<Rightarrow> removeAttribute ''value'' s | Some x \<Rightarrow> setAttribute ''value'' x s)"

definition set_required :: "bool \<Rightarrow> toggle_input \<Rightarrow> toggle_input" where
  "set_required val s =
     (if val then setAttribute ''required'' [] s else removeAttribute ''required'' s)"

definition set_indeterminate :: "bool \<Rightarrow> toggle_input \<Rightarrow> toggle_input" where
  "set_indeterminate val s =
     (if val then setAttribute ''indeterminate'' [] s else removeAttribute ''indeterminate'' s)"

subsection \<open>Construction and the connection callbacks\<close>

text \<open>
  The constructor.  Its first argument says whether \<open>this.attachInternals\<close> exists, its
  second holds the own properties assigned before the upgrade.
\<close>

definition "constructor" :: "bool \<Rightarrow> own_props \<Rightarrow> toggle_input" where
  "constructor hasAttachInternals props =
     \<lparr>attrs = Map.empty,
      native = \<lparr>n_checked = False, n_disabled = False, n_name = [], n_value = ''on'',
                n_indeterminate = False\<rparr>,
      buttonClasses = [],
      internals = (if hasAttachInternals
                   then Some \<lparr>formValue = None, valueMissing = False, customError = False,
                              validationMessage = []\<rparr>
                   else None),
      hiddenInput = None,
      customValidity = [],
      defaultChecked = False,
      defaultIndeterminate = False,
      own = props,
      isConnected = False,
      form = None,
      listening = False,
      resetForms = [],
      dispatched = []\<rparr>"

text \<open>\<open>_upgradeProperty\<close>, once for each of the five property names it is called with.\<close>

definition upgradeChecked :: "toggle_input \<Rightarrow> toggle_input" where
  "upgradeChecked s =
     (case own_checked (own s) of None \<Rightarrow> s
      | Some v \<Rightarrow> set_checked v (s\<lparr>own := (own s)\<lparr>own_checked := None\<rparr>\<rparr>))"

definition upgradeDisabled :: "toggle_input \<Rightarrow> toggle_input" where
  "upgradeDisabled s =
     (case own_disabled (own s) of None \<Rightarrow> s
      | Some v \<Rightarrow> set_disabled v (s\<lparr>own := (own s)\<lparr>own_disabled := None\<rparr>\<rparr>))"

definition upgradeName :: "toggle_input \<Rightarrow> toggle_input" where
  "upgradeName s =
     (case own_name (own s) of None \<Rightarrow> s
      | Some v \<Rightarrow> set_name v (s\<lparr>own := (own s)\<lparr>own_name := None\<rparr>\<rparr>))"

definition upgradeValue :: "toggle_input \<Rightarrow> toggle_input" where
  "upgradeValue s =
     (case own_value (own s) of None \<Rightarrow> s
      | Some v \<Rightarrow> set_value v (s\<lparr>own := (own s)\<lparr>own_value := None\<rparr>\<rparr>))"

definition upgradeIndeterminate :: "toggle_input \<Rightarrow> toggle_input" where
  "upgradeIndeterminate s =
     (case own_indeterminate (own s) of None \<Rightarrow> s
      | Some v \<Rightarrow> set_indeterminate v (s\<lparr>own := (own s)\<lparr>own_indeterminate := None\<rparr>\<rparr>))"

text \<open>Lines 126 and 127, lines 129 and 130, and lines 132 to 136 of \<open>connectedCallback\<close>.\<close>

definition defaultRoleAndTabindex :: "toggle_input \<Rightarrow> toggle_input" where
  "defaultRoleAndTabindex s =
     (let s1 = (if \<not> hasAttribute s ''role'' then setAttribute ''role'' ''checkbox'' s else s)
      in if \<not> hasAttribute s1 ''tabindex'' then setAttribute ''tabindex'' ''0'' s1 else s1)"

definition captureDefaults :: "toggle_input \<Rightarrow> toggle_input" where
  "captureDefaults s =
     s\<lparr>defaultChecked := hasAttribute s ''checked'',
       defaultIndeterminate := hasAttribute s ''indeterminate''\<rparr>"

definition upgradeProperties :: "toggle_input \<Rightarrow> toggle_input" where
  "upgradeProperties s =
     upgradeIndeterminate (upgradeValue (upgradeName (upgradeDisabled (upgradeChecked s))))"

definition connectedCallback :: "toggle_input \<Rightarrow> toggle_input" where
  "connectedCallback s =
     (let s5 = upgradeProperties (captureDefaults (defaultRoleAndTabindex s));
          s6 = render s5;
          s7 = s6\<lparr>listening := True\<rparr>;
          s8 = ensureHiddenInput (updateValidity (updateFormValue s7));
          s9 = (case form s8 of
                  Some g \<Rightarrow> s8\<lparr>resetForms := List.insert g (resetForms s8)\<rparr>
                | None \<Rightarrow> s8)
      in if hasAttribute s9 ''autofocus'' then focus s9 else s9)"

definition disconnectedCallback :: "toggle_input \<Rightarrow> toggle_input" where
  "disconnectedCallback s =
     (let s1 = s\<lparr>listening := False\<rparr>
      in case form s1 of
           Some g \<Rightarrow> s1\<lparr>resetForms := removeAll g (resetForms s1)\<rparr>
         | None \<Rightarrow> s1)"

subsection \<open>Event handlers and methods\<close>

definition onNativeInput :: "toggle_input \<Rightarrow> toggle_input" where
  "onNativeInput s =
     (let s1 = (if n_indeterminate (native s) then removeAttribute ''indeterminate'' s else s);
          s2 = (if n_checked (native s1) then setAttribute ''checked'' [] s1
                else removeAttribute ''checked'' s1)
      in dispatchEvent (Event ''input'' True True False)
           (render (updateValidity (updateFormValue (updateHiddenInput s2)))))"

definition onNativeChange :: "toggle_input \<Rightarrow> toggle_input" where
  "onNativeChange s =
     (let s1 = (if n_indeterminate (native s) then removeAttribute ''indeterminate'' s else s);
          s2 = (if n_checked (native s1) then setAttribute ''checked'' [] s1
                else removeAttribute ''checked'' s1)
      in dispatchEvent (Event ''change'' True True False)
           (render (updateValidity (updateFormValue (updateHiddenInput s2)))))"

text \<open>
  \<open>this._native.click()\<close>: the checkbox's own click, with the two listeners the
  constructor registered on it.
\<close>

definition nativeClick :: "toggle_input \<Rightarrow> toggle_input" where
  "nativeClick s =
     (if n_disabled (native s) then s
      else
        let s1 = s\<lparr>native := (native s)\<lparr>n_checked := \<not> n_checked (native s),
                                         n_indeterminate := False\<rparr>\<rparr>
        in if isConnected s1 then onNativeChange (onNativeInput s1) else s1)"

definition onClick :: "toggle_input \<Rightarrow> toggle_input" where
  "onClick s =
     (if get_disabled s then s
      else dispatchEvent (Event ''click'' True True True) (nativeClick s))"

text \<open>\<open>_onKeyDown\<close> returns the state and whether it called \<open>e.preventDefault()\<close>.\<close>

definition onKeyDown :: "string \<Rightarrow> toggle_input \<Rightarrow> toggle_input \<times> bool" where
  "onKeyDown key s =
     (if get_disabled s then (s, False)
      else if key = '' '' \<or> key = ''Spacebar'' \<or> key = ''Enter'' then (nativeClick s, True)
      else (s, False))"

definition onFormReset :: "toggle_input \<Rightarrow> toggle_input" where
  "onFormReset s =
     (let s1 = (if defaultChecked s then setAttribute ''checked'' [] s
                else removeAttribute ''checked'' s);
          s2 = (if defaultIndeterminate s1 then setAttribute ''indeterminate'' [] s1
                else removeAttribute ''indeterminate'' s1)
      in render (updateValidity (updateFormValue (updateHiddenInput s2))))"

definition toggle :: "toggle_input \<Rightarrow> toggle_input" where
  "toggle s =
     (let s1 = s\<lparr>native := (native s)\<lparr>n_checked := \<not> n_checked (native s)\<rparr>\<rparr>;
          s2 = (if n_indeterminate (native s1)
                then s1\<lparr>native := (native s1)\<lparr>n_indeterminate := False\<rparr>\<rparr> else s1);
          s3 = (if n_checked (native s2) then setAttribute ''checked'' [] s2
                else removeAttribute ''checked'' s2)
      in render (updateValidity (updateFormValue (updateHiddenInput s3))))"

definition checkValidity :: "toggle_input \<Rightarrow> bool \<times> toggle_input" where
  "checkValidity s =
     (let s1 = updateValidity s
      in case internals s1 of
           Some i \<Rightarrow> (valid i, s1)
         | None \<Rightarrow>
             (\<not> (get_required s1 \<and> \<not> n_checked (native s1)) \<and> customValidity s1 = [], s1))"

definition setCustomValidity :: "string option \<Rightarrow> toggle_input \<Rightarrow> toggle_input" where
  "setCustomValidity message s =
     (let s1 = s\<lparr>customValidity := orEmpty message\<rparr>
      in case internals s1 of
           Some i \<Rightarrow>
             if customValidity s1 \<noteq> []
             then s1\<lparr>internals := Some (i\<lparr>valueMissing := False, customError := True,
                         validationMessage := customValidity s1\<rparr>)\<rparr>
             else updateValidity s1
         | None \<Rightarrow> updateValidity s1)"

subsection \<open>What the page, the user and the browser can do to an element\<close>

datatype operation =
    SetAttribute string string
  | RemoveAttribute string
  | SetChecked bool
  | SetDisabled bool
  | SetName "string option"
  | SetValue "string option"
  | SetRequired bool
  | SetIndeterminate bool
  | Toggle
  | CheckValidity
  | SetCustomValidity "string option"
  | Connect "form_id option"
  | Disconnect bool
  | Detached "form_id option"
  | UserClick
  | UserKeyDown string
  | FormReset form_id

text \<open>
  \<open>Connect f\<close>: the element is inserted into a document, at a place where
  \<open>closest('form')\<close> is \<open>f\<close>.  \<open>Disconnect k\<close>: it is removed from the document,
  inside a subtree that still holds its form (\<open>k\<close> true) or without its form.
  \<open>Detached f\<close>: while it is in no document, it is moved to a place where
  \<open>closest('form')\<close> is \<open>f\<close>, which runs no callback.  A click on the button and a key
  on the host reach the handlers while \<open>connectedCallback\<close> has them registered.
  \<open>FormReset g\<close>: form \<open>g\<close> is reset, which reaches the handler when the reset
  listener is registered on that form.
\<close>

fun step :: "operation \<Rightarrow> toggle_input \<Rightarrow> toggle_input" where
  "step (SetAttribute n v) s = setAttribute n v s"
| "step (RemoveAttribute n) s = removeAttribute n s"
| "step (SetChecked b) s = set_checked b s"
| "step (SetDisabled b) s = set_disabled b s"
| "step (SetName v) s = set_name v s"
| "step (SetValue v) s = set_value v s"
| "step (SetRequired b) s = set_required b s"
| "step (SetIndeterminate b) s = set_indeterminate b s"
| "step Toggle s = toggle s"
| "step CheckValidity s = snd (checkValidity s)"
| "step (SetCustomValidity m) s = setCustomValidity m s"
| "step (Connect f) s = connectedCallback (s\<lparr>isConnected := True, form := f\<rparr>)"
| "step (Disconnect k) s =
     disconnectedCallback (s\<lparr>isConnected := False, form := (if k then form s else None)\<rparr>)"
| "step (Detached f) s = (if isConnected s then s else s\<lparr>form := f\<rparr>)"
| "step UserClick s = (if listening s then onClick s else s)"
| "step (UserKeyDown k) s = (if listening s then fst (onKeyDown k s) else s)"
| "step (FormReset g) s = (if g \<in> set (resetForms s) then onFormReset s else s)"

fun run :: "operation list \<Rightarrow> toggle_input \<Rightarrow> toggle_input" where
  "run [] s = s"
| "run (x # xs) s = run xs (step x s)"

subsection \<open>An element that is upgraded\<close>

text \<open>
  An element that was in the page before the class was defined is upgraded: the
  constructor runs on an element that has its attributes already and may be connected,
  then \<open>attributeChangedCallback\<close> runs once for each observed attribute, in the order
  of the attribute list, with null as the old value, and then \<open>connectedCallback\<close> when
  the element is connected.  \<open>Created\<close> is an element made by the constructor alone,
  \<open>Upgraded\<close> one that is upgraded with the given attribute list, connection and form
  ancestor.
\<close>

definition upgradeAttribute :: "string \<times> string \<Rightarrow> toggle_input \<Rightarrow> toggle_input" where
  "upgradeAttribute nv s =
     (if fst nv \<in> set observedAttributes
      then attributeChangedCallback (fst nv) None (Some (snd nv)) s else s)"

definition upgraded ::
  "bool \<Rightarrow> own_props \<Rightarrow> (string \<times> string) list \<Rightarrow> bool \<Rightarrow> form_id option
     \<Rightarrow> toggle_input" where
  "upgraded hasAttachInternals props al c f =
     (let s0 = (constructor hasAttachInternals props)
                 \<lparr>attrs := map_of al, isConnected := c, form := f\<rparr>;
          s1 = fold upgradeAttribute al s0
      in if c then connectedCallback s1 else s1)"

datatype origin =
    Created bool own_props
  | Upgraded bool own_props "(string \<times> string) list" bool "form_id option"


fun initial :: "origin \<Rightarrow> toggle_input" where
  "initial (Created a p) = constructor a p"
| "initial (Upgraded a p al c f) = upgraded a p al c f"

subsection \<open>The properties to be proved\<close>

text \<open>The attributes that the class itself writes on the host; none of them is observed.\<close>

definition managed :: "string list" where
  "managed = [''aria-checked'', ''aria-disabled'', ''aria-required'', ''aria-invalid'']"

definition usesInternals :: "toggle_input \<Rightarrow> bool" where
  "usesInternals s = (internals s \<noteq> None)"

text \<open>The \<open>checked\<close> property and the \<open>checked\<close> attribute agree.\<close>

definition checkedSynced :: "toggle_input \<Rightarrow> bool" where
  "checkedSynced s = (get_checked s = hasAttribute s ''checked'')"

text \<open>
  What a form submits for the element: the value property when it is checked and
  nothing otherwise, as the form value of the internals and as the content of the
  hidden input.
\<close>

definition formValueFor :: "toggle_input \<Rightarrow> string option" where
  "formValueFor s = (if get_checked s then Some (get_value s) else None)"

definition hiddenFor :: "toggle_input \<Rightarrow> form_id option \<Rightarrow> hidden_input" where
  "hiddenFor s g =
     (if get_checked s
      then \<lparr>h_name = Some (orEmpty (get_name s)), h_value = Some (get_value s), h_parent = g\<rparr>
      else \<lparr>h_name = None, h_value = None, h_parent = g\<rparr>)"

text \<open>
  The form value is up to date: the internals hold \<open>formValueFor\<close>, a hidden input that
  exists holds \<open>hiddenFor\<close> in whatever form it is, and a hidden input exists whenever
  the element has no internals, is connected, has a form ancestor and a non-empty name.
\<close>

definition formSynced :: "toggle_input \<Rightarrow> bool" where
  "formSynced s =
     ((case internals s of
         None \<Rightarrow> True
       | Some i \<Rightarrow> formValue i = formValueFor s)
      \<and> (case hiddenInput s of
           None \<Rightarrow>
             \<not> (\<not> usesInternals s \<and> isConnected s \<and> form s \<noteq> None \<and> truthy (get_name s))
         | Some h \<Rightarrow> h = hiddenFor s (h_parent h)))"

text \<open>An element with internals never has a hidden input.\<close>

definition fallbackOnly :: "toggle_input \<Rightarrow> bool" where
  "fallbackOnly s = (if usesInternals s then hiddenInput s = None else True)"

text \<open>The click and key listeners are registered only while the element is connected.\<close>

definition listenersConnected :: "toggle_input \<Rightarrow> bool" where
  "listenersConnected s = (if listening s then isConnected s else True)"

definition coreSynced :: "toggle_input \<Rightarrow> bool" where
  "coreSynced s = (checkedSynced s \<and> fallbackOnly s)"

definition wellSynced :: "toggle_input \<Rightarrow> bool" where
  "wellSynced s =
     (checkedSynced s \<and> formSynced s \<and> fallbackOnly s \<and> listenersConnected s)"

text \<open>The operations that stand for something the user does.\<close>

definition userOperation :: "operation \<Rightarrow> bool" where
  "userOperation x = (case x of UserClick \<Rightarrow> True | UserKeyDown k \<Rightarrow> True | _ \<Rightarrow> False)"

text \<open>The operations that neither connect nor disconnect the element.\<close>

definition keepsConnection :: "operation \<Rightarrow> bool" where
  "keepsConnection x = (case x of Connect f \<Rightarrow> False | Disconnect f \<Rightarrow> False | _ \<Rightarrow> True)"

text \<open>
  The validity state is up to date: with internals, the flags are the ones
  \<open>_updateValidity\<close> computes; without, so is the presence of \<open>aria-invalid\<close>.
\<close>

definition validitySynced :: "toggle_input \<Rightarrow> bool" where
  "validitySynced s =
     (case internals s of
        Some i \<Rightarrow>
          valueMissing i = (get_required s \<and> \<not> get_checked s)
          \<and> customError i = (customValidity s \<noteq> [])
      | None \<Rightarrow>
          hasAttribute s ''aria-invalid''
            = ((get_required s \<and> \<not> get_checked s) \<or> customValidity s \<noteq> []))"

text \<open>The attributes whose callback brings the form value up to date.\<close>

definition formNames :: "string list" where
  "formNames = [''name'', ''value'', ''checked'', ''indeterminate'']"

subsection \<open>Where the hidden input comes from\<close>

text \<open>
  \<open>hiddenTraced s t\<close> relates the state \<open>s\<close> before a method to the state \<open>t\<close> after
  it: the connection, the form ancestor and the internals are the same; a hidden input
  has gone only if the element is connected outside every form; a hidden input that was
  there is in the same form; and a hidden input has come only if the element is
  connected, has no internals and has a form ancestor, which is the form the input is
  appended to.
\<close>

definition hiddenTraced :: "toggle_input \<Rightarrow> toggle_input \<Rightarrow> bool" where
  "hiddenTraced s t =
     (isConnected t = isConnected s \<and> form t = form s \<and> usesInternals t = usesInternals s
      \<and> (case hiddenInput t of
           None \<Rightarrow> hiddenInput s = None \<or> (isConnected s \<and> form s = None)
         | Some h \<Rightarrow>
             (case hiddenInput s of
                Some h' \<Rightarrow> h_parent h = h_parent h'
              | None \<Rightarrow> isConnected s \<and> \<not> usesInternals s \<and> form s \<noteq> None
                  \<and> h_parent h = form s)))"

text \<open>The method has created the hidden input.\<close>

definition created :: "toggle_input \<Rightarrow> toggle_input \<Rightarrow> bool" where
  "created s t = (hiddenInput s = None \<and> hiddenInput t \<noteq> None)"

text \<open>
  Three ways to add the name to \<open>hiddenTraced\<close>.  A method that leaves the name alone
  creates the hidden input only if the name is not empty; a method that may change the
  name, only if the name is not empty afterwards; and \<open>connectedCallback\<close>, which
  replays an own \<open>name\<close> property between two calls of \<open>_updateFormValue\<close>, only if
  the name is not empty before or afterwards.
\<close>

definition tracedSameName :: "toggle_input \<Rightarrow> toggle_input \<Rightarrow> bool" where
  "tracedSameName s t =
     (hiddenTraced s t \<and> get_name t = get_name s
      \<and> (if created s t then truthy (get_name s) else True))"




subsection \<open>Elements to try the theorems on\<close>

definition noOwnProps :: own_props where
  "noOwnProps = \<lparr>own_checked = None, own_disabled = None, own_name = None, own_value = None,
     own_indeterminate = None\<rparr>"

text \<open>
  The element of the README, \<open><toggle-input name="likesCoding" value="on" checked />\<close>
  inside a form (form 1), upgraded when the module has loaded: in a browser with
  \<open>attachInternals\<close> and in one without.
\<close>

definition readmeElement :: origin where
  "readmeElement =
     Upgraded True noOwnProps
       [(''name'', ''likesCoding''), (''value'', ''on''), (''checked'', [])] True (Some 1)"

definition readmeFallback :: origin where
  "readmeFallback =
     Upgraded False noOwnProps
       [(''name'', ''likesCoding''), (''value'', ''on''), (''checked'', [])] True (Some 1)"

subsection \<open>What each method leaves unchanged\<close>

lemmas sel_if =
  if_distrib [of attrs] if_distrib [of native] if_distrib [of buttonClasses]
  if_distrib [of internals] if_distrib [of hiddenInput] if_distrib [of customValidity]
  if_distrib [of defaultChecked] if_distrib [of defaultIndeterminate] if_distrib [of own]
  if_distrib [of isConnected] if_distrib [of form] if_distrib [of listening]
  if_distrib [of resetForms] if_distrib [of dispatched]

lemma storeAttribute_frame [simp]:
  "attrs (storeAttribute n v s) = (attrs s)(n \<mapsto> v)"
  "native (storeAttribute n v s) = native s"
  "buttonClasses (storeAttribute n v s) = buttonClasses s"
  "internals (storeAttribute n v s) = internals s"
  "hiddenInput (storeAttribute n v s) = hiddenInput s"
  "customValidity (storeAttribute n v s) = customValidity s"
  "defaultChecked (storeAttribute n v s) = defaultChecked s"
  "defaultIndeterminate (storeAttribute n v s) = defaultIndeterminate s"
  "own (storeAttribute n v s) = own s"
  "isConnected (storeAttribute n v s) = isConnected s"
  "form (storeAttribute n v s) = form s"
  "listening (storeAttribute n v s) = listening s"
  "resetForms (storeAttribute n v s) = resetForms s"
  "dispatched (storeAttribute n v s) = dispatched s"
  by (simp_all add: storeAttribute_def)

lemma dropAttribute_frame [simp]:
  "attrs (dropAttribute n s) = (attrs s)(n := None)"
  "native (dropAttribute n s) = native s"
  "buttonClasses (dropAttribute n s) = buttonClasses s"
  "internals (dropAttribute n s) = internals s"
  "hiddenInput (dropAttribute n s) = hiddenInput s"
  "customValidity (dropAttribute n s) = customValidity s"
  "defaultChecked (dropAttribute n s) = defaultChecked s"
  "defaultIndeterminate (dropAttribute n s) = defaultIndeterminate s"
  "own (dropAttribute n s) = own s"
  "isConnected (dropAttribute n s) = isConnected s"
  "form (dropAttribute n s) = form s"
  "listening (dropAttribute n s) = listening s"
  "resetForms (dropAttribute n s) = resetForms s"
  "dispatched (dropAttribute n s) = dispatched s"
  by (simp_all add: dropAttribute_def)

lemma classAdd_frame [simp]:
  "attrs (classAdd c s) = attrs s"
  "native (classAdd c s) = native s"
  "internals (classAdd c s) = internals s"
  "hiddenInput (classAdd c s) = hiddenInput s"
  "customValidity (classAdd c s) = customValidity s"
  "defaultChecked (classAdd c s) = defaultChecked s"
  "defaultIndeterminate (classAdd c s) = defaultIndeterminate s"
  "own (classAdd c s) = own s"
  "isConnected (classAdd c s) = isConnected s"
  "form (classAdd c s) = form s"
  "listening (classAdd c s) = listening s"
  "resetForms (classAdd c s) = resetForms s"
  "dispatched (classAdd c s) = dispatched s"
  by (simp_all add: classAdd_def)

lemma classRemove_frame [simp]:
  "attrs (classRemove c s) = attrs s"
  "native (classRemove c s) = native s"
  "internals (classRemove c s) = internals s"
  "hiddenInput (classRemove c s) = hiddenInput s"
  "customValidity (classRemove c s) = customValidity s"
  "defaultChecked (classRemove c s) = defaultChecked s"
  "defaultIndeterminate (classRemove c s) = defaultIndeterminate s"
  "own (classRemove c s) = own s"
  "isConnected (classRemove c s) = isConnected s"
  "form (classRemove c s) = form s"
  "listening (classRemove c s) = listening s"
  "resetForms (classRemove c s) = resetForms s"
  "dispatched (classRemove c s) = dispatched s"
  by (simp_all add: classRemove_def)

lemma render_frame [simp]:
  "native (render s) = native s"
  "internals (render s) = internals s"
  "hiddenInput (render s) = hiddenInput s"
  "customValidity (render s) = customValidity s"
  "defaultChecked (render s) = defaultChecked s"
  "defaultIndeterminate (render s) = defaultIndeterminate s"
  "own (render s) = own s"
  "isConnected (render s) = isConnected s"
  "form (render s) = form s"
  "listening (render s) = listening s"
  "resetForms (render s) = resetForms s"
  "dispatched (render s) = dispatched s"
  by (simp_all add: render_def Let_def sel_if)

lemma render_attrs [simp]:
  "n \<notin> set managed \<Longrightarrow> attrs (render s) n = attrs s n"
  by (simp add: render_def Let_def sel_if managed_def)

lemma writeHiddenInput_frame [simp]:
  "native (writeHiddenInput s) = native s"
  "attrs (writeHiddenInput s) = attrs s"
  "buttonClasses (writeHiddenInput s) = buttonClasses s"
  "internals (writeHiddenInput s) = internals s"
  "customValidity (writeHiddenInput s) = customValidity s"
  "defaultChecked (writeHiddenInput s) = defaultChecked s"
  "defaultIndeterminate (writeHiddenInput s) = defaultIndeterminate s"
  "own (writeHiddenInput s) = own s"
  "isConnected (writeHiddenInput s) = isConnected s"
  "form (writeHiddenInput s) = form s"
  "listening (writeHiddenInput s) = listening s"
  "resetForms (writeHiddenInput s) = resetForms s"
  "dispatched (writeHiddenInput s) = dispatched s"
  by (simp_all add: writeHiddenInput_def split: option.split)

lemma ensureHiddenInput_frame [simp]:
  "native (ensureHiddenInput s) = native s"
  "attrs (ensureHiddenInput s) = attrs s"
  "buttonClasses (ensureHiddenInput s) = buttonClasses s"
  "internals (ensureHiddenInput s) = internals s"
  "customValidity (ensureHiddenInput s) = customValidity s"
  "defaultChecked (ensureHiddenInput s) = defaultChecked s"
  "defaultIndeterminate (ensureHiddenInput s) = defaultIndeterminate s"
  "own (ensureHiddenInput s) = own s"
  "isConnected (ensureHiddenInput s) = isConnected s"
  "form (ensureHiddenInput s) = form s"
  "listening (ensureHiddenInput s) = listening s"
  "resetForms (ensureHiddenInput s) = resetForms s"
  "dispatched (ensureHiddenInput s) = dispatched s"
  by (simp_all add: ensureHiddenInput_def sel_if)

lemma updateHiddenInput_frame [simp]:
  "native (updateHiddenInput s) = native s"
  "attrs (updateHiddenInput s) = attrs s"
  "buttonClasses (updateHiddenInput s) = buttonClasses s"
  "internals (updateHiddenInput s) = internals s"
  "customValidity (updateHiddenInput s) = customValidity s"
  "defaultChecked (updateHiddenInput s) = defaultChecked s"
  "defaultIndeterminate (updateHiddenInput s) = defaultIndeterminate s"
  "own (updateHiddenInput s) = own s"
  "isConnected (updateHiddenInput s) = isConnected s"
  "form (updateHiddenInput s) = form s"
  "listening (updateHiddenInput s) = listening s"
  "resetForms (updateHiddenInput s) = resetForms s"
  "dispatched (updateHiddenInput s) = dispatched s"
  by (simp_all add: updateHiddenInput_def Let_def sel_if)

lemma updateFormValue_frame [simp]:
  "native (updateFormValue s) = native s"
  "attrs (updateFormValue s) = attrs s"
  "buttonClasses (updateFormValue s) = buttonClasses s"
  "customValidity (updateFormValue s) = customValidity s"
  "defaultChecked (updateFormValue s) = defaultChecked s"
  "defaultIndeterminate (updateFormValue s) = defaultIndeterminate s"
  "own (updateFormValue s) = own s"
  "isConnected (updateFormValue s) = isConnected s"
  "form (updateFormValue s) = form s"
  "listening (updateFormValue s) = listening s"
  "resetForms (updateFormValue s) = resetForms s"
  "dispatched (updateFormValue s) = dispatched s"
  by (simp_all add: updateFormValue_def split: option.split)

lemma updateValidity_frame [simp]:
  "native (updateValidity s) = native s"
  "buttonClasses (updateValidity s) = buttonClasses s"
  "hiddenInput (updateValidity s) = hiddenInput s"
  "customValidity (updateValidity s) = customValidity s"
  "defaultChecked (updateValidity s) = defaultChecked s"
  "defaultIndeterminate (updateValidity s) = defaultIndeterminate s"
  "own (updateValidity s) = own s"
  "isConnected (updateValidity s) = isConnected s"
  "form (updateValidity s) = form s"
  "listening (updateValidity s) = listening s"
  "resetForms (updateValidity s) = resetForms s"
  "dispatched (updateValidity s) = dispatched s"
  by (simp_all add: updateValidity_def Let_def split: option.split)

lemma updateValidity_attrs [simp]:
  "n \<notin> set managed \<Longrightarrow> attrs (updateValidity s) n = attrs s n"
  by (simp add: updateValidity_def Let_def managed_def split: option.split)

lemma internals_updateValidity:
  "internals (updateValidity s) =
     (case internals s of
        None \<Rightarrow> None
      | Some i \<Rightarrow>
          Some (i\<lparr>valueMissing := (get_required s \<and> \<not> n_checked (native s)),
                  customError := (customValidity s \<noteq> []),
                  validationMessage :=
                    (if customValidity s \<noteq> [] then customValidity s
                     else if get_required s \<and> \<not> n_checked (native s)
                     then ''This checkbox cannot be left unchecked.'' else [])\<rparr>))"
  by (auto simp add: updateValidity_def Let_def split: option.split)

lemma usesInternals_simps [simp]:
  "usesInternals (render s) = usesInternals s"
  "usesInternals (writeHiddenInput s) = usesInternals s"
  "usesInternals (ensureHiddenInput s) = usesInternals s"
  "usesInternals (updateHiddenInput s) = usesInternals s"
  "usesInternals (updateFormValue s) = usesInternals s"
  "usesInternals (updateValidity s) = usesInternals s"
  by (simp_all add: usesInternals_def internals_updateValidity updateFormValue_def
      split: option.split)

subsection \<open>The attribute callback\<close>

lemma focus_id [simp]: "focus s = s"
  by (simp add: focus_def)

lemma mirrorAttribute_frame [simp]:
  "attrs (mirrorAttribute n s) = attrs s"
  "buttonClasses (mirrorAttribute n s) = buttonClasses s"
  "internals (mirrorAttribute n s) = internals s"
  "hiddenInput (mirrorAttribute n s) = hiddenInput s"
  "customValidity (mirrorAttribute n s) = customValidity s"
  "defaultChecked (mirrorAttribute n s) = defaultChecked s"
  "defaultIndeterminate (mirrorAttribute n s) = defaultIndeterminate s"
  "own (mirrorAttribute n s) = own s"
  "isConnected (mirrorAttribute n s) = isConnected s"
  "form (mirrorAttribute n s) = form s"
  "listening (mirrorAttribute n s) = listening s"
  "resetForms (mirrorAttribute n s) = resetForms s"
  "dispatched (mirrorAttribute n s) = dispatched s"
  by (simp_all add: mirrorAttribute_def Let_def)

lemma mirrorAttribute_native:
  "n_checked (native (mirrorAttribute n s)) =
     (if n = ''checked'' then hasAttribute s ''checked'' else n_checked (native s))"
  "n_indeterminate (native (mirrorAttribute n s)) =
     (if n = ''indeterminate'' then hasAttribute s ''indeterminate''
      else n_indeterminate (native s))"
  "n_disabled (native (mirrorAttribute n s)) =
     (if n = ''disabled'' then hasAttribute s ''disabled'' else n_disabled (native s))"
  by (simp_all add: mirrorAttribute_def Let_def hasAttribute_def)

lemma acc_frame [simp]:
  "customValidity (attributeChangedCallback n ov nv s) = customValidity s"
  "defaultChecked (attributeChangedCallback n ov nv s) = defaultChecked s"
  "defaultIndeterminate (attributeChangedCallback n ov nv s) = defaultIndeterminate s"
  "own (attributeChangedCallback n ov nv s) = own s"
  "isConnected (attributeChangedCallback n ov nv s) = isConnected s"
  "form (attributeChangedCallback n ov nv s) = form s"
  "listening (attributeChangedCallback n ov nv s) = listening s"
  "resetForms (attributeChangedCallback n ov nv s) = resetForms s"
  "dispatched (attributeChangedCallback n ov nv s) = dispatched s"
  by (simp_all add: attributeChangedCallback_def Let_def sel_if)

lemma acc_attrs [simp]:
  "m \<notin> set managed \<Longrightarrow> attrs (attributeChangedCallback n ov nv s) m = attrs s m"
  by (simp add: attributeChangedCallback_def Let_def sel_if)

lemma acc_native:
  "n_checked (native (attributeChangedCallback n ov nv s)) =
     (if ov \<noteq> nv \<and> n = ''checked'' then hasAttribute s ''checked'' else n_checked (native s))"
  "n_indeterminate (native (attributeChangedCallback n ov nv s)) =
     (if ov \<noteq> nv \<and> n = ''indeterminate'' then hasAttribute s ''indeterminate''
      else n_indeterminate (native s))"
  "n_disabled (native (attributeChangedCallback n ov nv s)) =
     (if ov \<noteq> nv \<and> n = ''disabled'' then hasAttribute s ''disabled''
      else n_disabled (native s))"
  by (simp_all add: attributeChangedCallback_def Let_def sel_if mirrorAttribute_native)

lemma acc_usesInternals [simp]:
  "usesInternals (attributeChangedCallback n ov nv s) = usesInternals s"
  by (simp add: attributeChangedCallback_def Let_def if_distrib [of usesInternals])
     (simp add: usesInternals_def)

subsection \<open>The form value after an update\<close>

lemmas getter_defs = get_checked_def get_value_def get_name_def getAttribute_def
  hasAttribute_def get_required_def get_disabled_def get_indeterminate_def

lemma managed_names [simp]:
  "''value'' \<notin> set managed" "''name'' \<notin> set managed" "''checked'' \<notin> set managed"
  "''indeterminate'' \<notin> set managed" "''required'' \<notin> set managed"
  "''disabled'' \<notin> set managed"
  by (simp_all add: managed_def)

lemma hiddenFor_cong:
  "native t = native s \<Longrightarrow> attrs t ''name'' = attrs s ''name'' \<Longrightarrow>
   attrs t ''value'' = attrs s ''value'' \<Longrightarrow> hiddenFor t = hiddenFor s"
  by (rule ext) (simp add: hiddenFor_def getter_defs)

lemma hiddenFor_parent [simp]: "h_parent (hiddenFor s g) = g"
  by (simp add: hiddenFor_def)

lemma formValueFor_cong:
  "native t = native s \<Longrightarrow> attrs t ''value'' = attrs s ''value'' \<Longrightarrow>
   formValueFor t = formValueFor s"
  by (simp add: formValueFor_def getter_defs)

lemma get_name_cong:
  "attrs t ''name'' = attrs s ''name'' \<Longrightarrow> get_name t = get_name s"
  by (simp add: getter_defs)

lemma hiddenFor_simps [simp]:
  "hiddenFor (s\<lparr>hiddenInput := x\<rparr>) = hiddenFor s"
  "hiddenFor (s\<lparr>internals := y\<rparr>) = hiddenFor s"
  "hiddenFor (ensureHiddenInput s) = hiddenFor s"
  "hiddenFor (writeHiddenInput s) = hiddenFor s"
  "hiddenFor (updateHiddenInput s) = hiddenFor s"
  "hiddenFor (updateFormValue s) = hiddenFor s"
  "hiddenFor (updateValidity s) = hiddenFor s"
  "hiddenFor (render s) = hiddenFor s"
  by (rule hiddenFor_cong; simp)+

lemma formValueFor_simps [simp]:
  "formValueFor (s\<lparr>hiddenInput := x\<rparr>) = formValueFor s"
  "formValueFor (s\<lparr>internals := y\<rparr>) = formValueFor s"
  "formValueFor (ensureHiddenInput s) = formValueFor s"
  "formValueFor (writeHiddenInput s) = formValueFor s"
  "formValueFor (updateHiddenInput s) = formValueFor s"
  "formValueFor (updateFormValue s) = formValueFor s"
  "formValueFor (updateValidity s) = formValueFor s"
  "formValueFor (render s) = formValueFor s"
  by (rule formValueFor_cong; simp)+

lemma get_name_simps [simp]:
  "get_name (s\<lparr>hiddenInput := x\<rparr>) = get_name s"
  "get_name (s\<lparr>internals := y\<rparr>) = get_name s"
  "get_name (ensureHiddenInput s) = get_name s"
  "get_name (writeHiddenInput s) = get_name s"
  "get_name (updateHiddenInput s) = get_name s"
  "get_name (updateFormValue s) = get_name s"
  "get_name (updateValidity s) = get_name s"
  "get_name (render s) = get_name s"
  by (rule get_name_cong; simp)+

lemma hiddenInput_write:
  "hiddenInput (writeHiddenInput s) =
     (case hiddenInput s of None \<Rightarrow> None | Some h \<Rightarrow> Some (hiddenFor s (h_parent h)))"
  by (simp add: writeHiddenInput_def hiddenFor_def get_checked_def split: option.split)

lemma hiddenInput_ensure:
  "hiddenInput (ensureHiddenInput s) =
     (if \<not> isConnected s then hiddenInput s
      else if form s = None \<and> hiddenInput s \<noteq> None then None
      else if internals s = None \<and> form s \<noteq> None \<and> hiddenInput s = None
              \<and> truthy (get_name s)
      then Some (hiddenFor s (form s))
      else hiddenInput s)"
  by (simp add: ensureHiddenInput_def hiddenInput_write)

lemma hiddenInput_update:
  "hiddenInput (updateHiddenInput s) =
     (case hiddenInput s of
        Some h \<Rightarrow> Some (hiddenFor s (h_parent h))
      | None \<Rightarrow>
          if isConnected s \<and> internals s = None \<and> form s \<noteq> None \<and> truthy (get_name s)
          then Some (hiddenFor s (form s)) else None)"
  by (simp add: updateHiddenInput_def Let_def hiddenInput_write hiddenInput_ensure
      split: option.split)

lemma hiddenInput_updateFormValue:
  "hiddenInput (updateFormValue s) =
     (case internals s of Some i \<Rightarrow> hiddenInput s | None \<Rightarrow> hiddenInput (updateHiddenInput s))"
  by (simp add: updateFormValue_def split: option.split)

lemma internals_updateFormValue:
  "internals (updateFormValue s) =
     (case internals s of None \<Rightarrow> None | Some i \<Rightarrow> Some (i\<lparr>formValue := formValueFor s\<rparr>))"
  by (simp add: updateFormValue_def formValueFor_def get_checked_def split: option.split)

lemma formSynced_render [simp]: "formSynced (render s) = formSynced s"
  by (simp add: formSynced_def cong: option.case_cong)

lemma formSynced_updateValidity [simp]: "formSynced (updateValidity s) = formSynced s"
  by (cases "internals s"; cases "hiddenInput s")
     (simp_all add: formSynced_def internals_updateValidity usesInternals_def)

lemma formSynced_resync: "formSynced (updateFormValue (updateHiddenInput s))"
  by (cases "internals s"; cases "hiddenInput s")
     (simp_all add: formSynced_def hiddenInput_updateFormValue hiddenInput_update
       internals_updateFormValue usesInternals_def)

lemma formSynced_ensure: "formSynced s \<Longrightarrow> formSynced (ensureHiddenInput s)"
  by (cases "internals s"; cases "hiddenInput s")
     (simp_all add: formSynced_def hiddenInput_ensure usesInternals_def)

lemma hiddenFor_mirror [simp]:
  "n \<noteq> ''checked'' \<Longrightarrow> hiddenFor (mirrorAttribute n s) = hiddenFor s"
  "n \<noteq> ''checked'' \<Longrightarrow> formValueFor (mirrorAttribute n s) = formValueFor s"
  "get_name (mirrorAttribute n s) = get_name s"
  by (simp_all add: hiddenFor_def formValueFor_def getter_defs mirrorAttribute_native
      fun_eq_iff)

lemma formSynced_mirror [simp]:
  "n \<noteq> ''checked'' \<Longrightarrow> formSynced (mirrorAttribute n s) = formSynced s"
  by (simp add: formSynced_def usesInternals_def cong: option.case_cong)

lemma acc_formSynced:
  "formSynced s \<Longrightarrow> formSynced (attributeChangedCallback n ov nv s)"
  by (simp add: attributeChangedCallback_def Let_def formSynced_resync)

lemma acc_formSynced_fresh:
  "ov \<noteq> nv \<Longrightarrow> n = ''name'' \<or> n = ''value'' \<or> n = ''checked'' \<or> n = ''indeterminate'' \<Longrightarrow>
   formSynced (attributeChangedCallback n ov nv s)"
  by (auto simp add: attributeChangedCallback_def Let_def formSynced_resync)

subsection \<open>Setting and removing attributes\<close>

lemma storeAttribute_same: "attrs s n = Some v \<Longrightarrow> storeAttribute n v s = s"
  by (simp add: storeAttribute_def map_upd_triv)

lemma observed_not_managed: "n \<in> set managed \<Longrightarrow> n \<notin> set observedAttributes"
  by (auto simp add: managed_def observedAttributes_def)

lemma setAttribute_frame [simp]:
  "customValidity (setAttribute n v s) = customValidity s"
  "defaultChecked (setAttribute n v s) = defaultChecked s"
  "defaultIndeterminate (setAttribute n v s) = defaultIndeterminate s"
  "own (setAttribute n v s) = own s"
  "isConnected (setAttribute n v s) = isConnected s"
  "form (setAttribute n v s) = form s"
  "listening (setAttribute n v s) = listening s"
  "resetForms (setAttribute n v s) = resetForms s"
  "dispatched (setAttribute n v s) = dispatched s"
  "usesInternals (setAttribute n v s) = usesInternals s"
  by (simp_all add: setAttribute_def usesInternals_def [of "storeAttribute n v s"]
      usesInternals_def [of s])

lemma removeAttribute_frame [simp]:
  "customValidity (removeAttribute n s) = customValidity s"
  "defaultChecked (removeAttribute n s) = defaultChecked s"
  "defaultIndeterminate (removeAttribute n s) = defaultIndeterminate s"
  "own (removeAttribute n s) = own s"
  "isConnected (removeAttribute n s) = isConnected s"
  "form (removeAttribute n s) = form s"
  "listening (removeAttribute n s) = listening s"
  "resetForms (removeAttribute n s) = resetForms s"
  "dispatched (removeAttribute n s) = dispatched s"
  "usesInternals (removeAttribute n s) = usesInternals s"
  by (simp_all add: removeAttribute_def usesInternals_def [of "dropAttribute n s"]
      usesInternals_def [of s])

lemma setAttribute_attrs [simp]:
  "m \<notin> set managed \<Longrightarrow> attrs (setAttribute n v s) m = (if m = n then Some v else attrs s m)"
  by (auto simp add: setAttribute_def)

lemma removeAttribute_attrs [simp]:
  "m \<notin> set managed \<Longrightarrow> attrs (removeAttribute n s) m = (if m = n then None else attrs s m)"
  by (auto simp add: removeAttribute_def)

lemma setAttribute_native:
  "n_checked (native (setAttribute n v s)) =
     (if n = ''checked'' \<and> attrs s n \<noteq> Some v then True else n_checked (native s))"
  "n_indeterminate (native (setAttribute n v s)) =
     (if n = ''indeterminate'' \<and> attrs s n \<noteq> Some v then True else n_indeterminate (native s))"
  "n_disabled (native (setAttribute n v s)) =
     (if n = ''disabled'' \<and> attrs s n \<noteq> Some v then True else n_disabled (native s))"
  by (auto simp add: setAttribute_def acc_native hasAttribute_def observedAttributes_def)

lemma removeAttribute_native:
  "n_checked (native (removeAttribute n s)) =
     (if n = ''checked'' \<and> attrs s n \<noteq> None then False else n_checked (native s))"
  "n_indeterminate (native (removeAttribute n s)) =
     (if n = ''indeterminate'' \<and> attrs s n \<noteq> None then False else n_indeterminate (native s))"
  "n_disabled (native (removeAttribute n s)) =
     (if n = ''disabled'' \<and> attrs s n \<noteq> None then False else n_disabled (native s))"
  by (auto simp add: removeAttribute_def acc_native hasAttribute_def observedAttributes_def)

lemma formSynced_store:
  "n \<noteq> ''name'' \<Longrightarrow> n \<noteq> ''value'' \<Longrightarrow> formSynced (storeAttribute n v s) = formSynced s"
  "n \<noteq> ''name'' \<Longrightarrow> n \<noteq> ''value'' \<Longrightarrow> formSynced (dropAttribute n s) = formSynced s"
  by (simp_all add: formSynced_def hiddenFor_def formValueFor_def getter_defs usesInternals_def
      cong: option.case_cong)

lemma setAttribute_formSynced:
  assumes "formSynced s"
  shows "formSynced (setAttribute n v s)"
proof (cases "attrs s n = Some v")
  case True
  with assms show ?thesis
    by (simp add: setAttribute_def storeAttribute_same attributeChangedCallback_def)
next
  case False
  show ?thesis
  proof (cases "n = ''name'' \<or> n = ''value'' \<or> n = ''checked'' \<or> n = ''indeterminate''")
    case True
    then have "n \<in> set observedAttributes"
      by (auto simp add: observedAttributes_def)
    with True False show ?thesis
      by (simp add: setAttribute_def acc_formSynced_fresh)
  next
    case False
    with assms have "formSynced (storeAttribute n v s)"
      by (simp add: formSynced_store)
    then show ?thesis
      by (simp add: setAttribute_def acc_formSynced)
  qed
qed

lemma removeAttribute_formSynced:
  assumes "formSynced s"
  shows "formSynced (removeAttribute n s)"
proof (cases "attrs s n = None")
  case True
  with assms show ?thesis
    by (simp add: removeAttribute_def)
next
  case False
  show ?thesis
  proof (cases "n = ''name'' \<or> n = ''value'' \<or> n = ''checked'' \<or> n = ''indeterminate''")
    case True
    then have "n \<in> set observedAttributes"
      by (auto simp add: observedAttributes_def)
    with True False show ?thesis
      by (auto simp add: removeAttribute_def acc_formSynced_fresh)
  next
    case False
    with assms have "formSynced (dropAttribute n s)"
      by (simp add: formSynced_store)
    with assms show ?thesis
      by (simp add: removeAttribute_def acc_formSynced)
  qed
qed

subsection \<open>The invariant under the attribute methods\<close>

lemma checkedSynced_cong:
  "native t = native s \<Longrightarrow> attrs t ''checked'' = attrs s ''checked'' \<Longrightarrow>
   checkedSynced t = checkedSynced s"
  by (simp add: checkedSynced_def getter_defs)

lemma checkedSynced_simps [simp]:
  "checkedSynced (render s) = checkedSynced s"
  "checkedSynced (updateValidity s) = checkedSynced s"
  "checkedSynced (updateFormValue s) = checkedSynced s"
  "checkedSynced (updateHiddenInput s) = checkedSynced s"
  "checkedSynced (ensureHiddenInput s) = checkedSynced s"
  by (rule checkedSynced_cong; simp)+

lemma setAttribute_checkedSynced:
  "checkedSynced s \<Longrightarrow> checkedSynced (setAttribute n v s)"
  by (auto simp add: checkedSynced_def getter_defs setAttribute_native)

lemma removeAttribute_checkedSynced:
  "checkedSynced s \<Longrightarrow> checkedSynced (removeAttribute n s)"
  by (auto simp add: checkedSynced_def getter_defs removeAttribute_native)

lemma fallbackOnly_basic:
  "fallbackOnly s \<Longrightarrow> fallbackOnly (render s)"
  "fallbackOnly s \<Longrightarrow> fallbackOnly (updateValidity s)"
  "fallbackOnly s \<Longrightarrow> fallbackOnly (ensureHiddenInput s)"
  "fallbackOnly s \<Longrightarrow> fallbackOnly (updateHiddenInput s)"
  "fallbackOnly s \<Longrightarrow> fallbackOnly (updateFormValue s)"
  "fallbackOnly s \<Longrightarrow> fallbackOnly (mirrorAttribute n s)"
  by (cases "internals s";
      simp add: fallbackOnly_def hiddenInput_ensure hiddenInput_update
        hiddenInput_updateFormValue usesInternals_def [of s]
        usesInternals_def [of "mirrorAttribute n s"])+

lemma acc_fallbackOnly:
  "fallbackOnly s \<Longrightarrow> fallbackOnly (attributeChangedCallback n ov nv s)"
  by (simp add: attributeChangedCallback_def Let_def fallbackOnly_basic)

lemma fallbackOnly_store:
  "fallbackOnly (storeAttribute n v s) = fallbackOnly s"
  "fallbackOnly (dropAttribute n s) = fallbackOnly s"
  by (simp_all add: fallbackOnly_def usesInternals_def)

lemma setAttribute_fallbackOnly:
  "fallbackOnly s \<Longrightarrow> fallbackOnly (setAttribute n v s)"
  by (simp add: setAttribute_def acc_fallbackOnly fallbackOnly_store)

lemma removeAttribute_fallbackOnly:
  "fallbackOnly s \<Longrightarrow> fallbackOnly (removeAttribute n s)"
  by (simp add: removeAttribute_def acc_fallbackOnly fallbackOnly_store)

lemma setAttribute_wellSynced: "wellSynced s \<Longrightarrow> wellSynced (setAttribute n v s)"
  by (simp add: wellSynced_def setAttribute_checkedSynced setAttribute_formSynced
      setAttribute_fallbackOnly listenersConnected_def)

lemma removeAttribute_wellSynced: "wellSynced s \<Longrightarrow> wellSynced (removeAttribute n s)"
  by (simp add: wellSynced_def removeAttribute_checkedSynced removeAttribute_formSynced
      removeAttribute_fallbackOnly listenersConnected_def)

subsection \<open>The invariant under the handlers and methods\<close>

lemma native_update_simps [simp]:
  "usesInternals (s\<lparr>native := x\<rparr>) = usesInternals s"
  "fallbackOnly (s\<lparr>native := x\<rparr>) = fallbackOnly s"
  "listenersConnected (s\<lparr>native := x\<rparr>) = listenersConnected s"
  by (simp_all add: usesInternals_def fallbackOnly_def listenersConnected_def)

lemma listenersConnected_simps [simp]:
  "listenersConnected (render s) = listenersConnected s"
  "listenersConnected (updateValidity s) = listenersConnected s"
  "listenersConnected (updateFormValue s) = listenersConnected s"
  "listenersConnected (updateHiddenInput s) = listenersConnected s"
  "listenersConnected (ensureHiddenInput s) = listenersConnected s"
  "listenersConnected (setAttribute n v s) = listenersConnected s"
  "listenersConnected (removeAttribute n s) = listenersConnected s"
  "listenersConnected (dispatchEvent e s) = listenersConnected s"
  by (simp_all add: listenersConnected_def dispatchEvent_def)

lemma syncChecked:
  "checkedSynced (if n_checked (native s) then setAttribute ''checked'' [] s
                  else removeAttribute ''checked'' s)"
  by (simp add: checkedSynced_def getter_defs setAttribute_native removeAttribute_native)

lemma chain_wellSynced:
  "checkedSynced s \<Longrightarrow> fallbackOnly s \<Longrightarrow> listenersConnected s \<Longrightarrow>
   wellSynced (render (updateValidity (updateFormValue (updateHiddenInput s))))"
  by (simp add: wellSynced_def formSynced_resync fallbackOnly_basic)

lemma dispatchEvent_wellSynced [simp]: "wellSynced (dispatchEvent e s) = wellSynced s"
  by (simp add: wellSynced_def dispatchEvent_def checkedSynced_def formSynced_def
      fallbackOnly_def hiddenFor_def formValueFor_def usesInternals_def getter_defs
      listenersConnected_def cong: option.case_cong)

lemma toggle_wellSynced:
  assumes "wellSynced s"
  shows "wellSynced (toggle s)"
proof -
  from assms have "fallbackOnly s" "listenersConnected s"
    by (simp_all add: wellSynced_def)
  then show ?thesis
    unfolding toggle_def Let_def
    by (intro chain_wellSynced syncChecked)
       (simp_all add: setAttribute_fallbackOnly removeAttribute_fallbackOnly)
qed

lemma onNativeInput_wellSynced:
  assumes "fallbackOnly s" "listenersConnected s"
  shows "wellSynced (onNativeInput s)"
  using assms unfolding onNativeInput_def Let_def dispatchEvent_wellSynced
  by (intro chain_wellSynced syncChecked)
     (simp_all add: setAttribute_fallbackOnly removeAttribute_fallbackOnly)

lemma onNativeChange_wellSynced:
  assumes "fallbackOnly s" "listenersConnected s"
  shows "wellSynced (onNativeChange s)"
  using assms unfolding onNativeChange_def Let_def dispatchEvent_wellSynced
  by (intro chain_wellSynced syncChecked)
     (simp_all add: setAttribute_fallbackOnly removeAttribute_fallbackOnly)

lemma checkedSynced_updates [simp]:
  "checkedSynced (s\<lparr>isConnected := b\<rparr>) = checkedSynced s"
  "checkedSynced (s\<lparr>form := f\<rparr>) = checkedSynced s"
  "checkedSynced (s\<lparr>listening := b\<rparr>) = checkedSynced s"
  "checkedSynced (s\<lparr>resetForms := r\<rparr>) = checkedSynced s"
  "checkedSynced (s\<lparr>defaultChecked := b\<rparr>) = checkedSynced s"
  "checkedSynced (s\<lparr>defaultIndeterminate := b\<rparr>) = checkedSynced s"
  "checkedSynced (s\<lparr>own := p\<rparr>) = checkedSynced s"
  "checkedSynced (s\<lparr>customValidity := m\<rparr>) = checkedSynced s"
  "checkedSynced (s\<lparr>internals := i\<rparr>) = checkedSynced s"
  by (simp_all add: checkedSynced_def getter_defs)

lemma fallbackOnly_updates [simp]:
  "fallbackOnly (s\<lparr>isConnected := b\<rparr>) = fallbackOnly s"
  "fallbackOnly (s\<lparr>form := f\<rparr>) = fallbackOnly s"
  "fallbackOnly (s\<lparr>listening := b\<rparr>) = fallbackOnly s"
  "fallbackOnly (s\<lparr>resetForms := r\<rparr>) = fallbackOnly s"
  "fallbackOnly (s\<lparr>defaultChecked := b\<rparr>) = fallbackOnly s"
  "fallbackOnly (s\<lparr>defaultIndeterminate := b\<rparr>) = fallbackOnly s"
  "fallbackOnly (s\<lparr>own := p\<rparr>) = fallbackOnly s"
  "fallbackOnly (s\<lparr>customValidity := m\<rparr>) = fallbackOnly s"
  by (simp_all add: fallbackOnly_def usesInternals_def)

lemma formSynced_updates [simp]:
  "formSynced (s\<lparr>listening := b\<rparr>) = formSynced s"
  "formSynced (s\<lparr>resetForms := r\<rparr>) = formSynced s"
  "formSynced (s\<lparr>defaultChecked := b\<rparr>) = formSynced s"
  "formSynced (s\<lparr>defaultIndeterminate := b\<rparr>) = formSynced s"
  "formSynced (s\<lparr>own := p\<rparr>) = formSynced s"
  "formSynced (s\<lparr>customValidity := m\<rparr>) = formSynced s"
  by (simp_all add: formSynced_def hiddenFor_def formValueFor_def usesInternals_def getter_defs
      cong: option.case_cong)

lemma listenersConnected_updates [simp]:
  "listenersConnected (s\<lparr>resetForms := r\<rparr>) = listenersConnected s"
  "listenersConnected (s\<lparr>defaultChecked := b\<rparr>) = listenersConnected s"
  "listenersConnected (s\<lparr>defaultIndeterminate := b\<rparr>) = listenersConnected s"
  "listenersConnected (s\<lparr>own := p\<rparr>) = listenersConnected s"
  "listenersConnected (s\<lparr>customValidity := m\<rparr>) = listenersConnected s"
  "listenersConnected (s\<lparr>internals := i\<rparr>) = listenersConnected s"
  by (simp_all add: listenersConnected_def)

lemma wellSynced_updates [simp]:
  "wellSynced (s\<lparr>resetForms := r\<rparr>) = wellSynced s"
  "wellSynced (s\<lparr>defaultChecked := b\<rparr>) = wellSynced s"
  "wellSynced (s\<lparr>defaultIndeterminate := b\<rparr>) = wellSynced s"
  "wellSynced (s\<lparr>own := p\<rparr>) = wellSynced s"
  "wellSynced (s\<lparr>customValidity := m\<rparr>) = wellSynced s"
  by (simp_all add: wellSynced_def)

lemma nativeClick_wellSynced:
  assumes "wellSynced s" "isConnected s"
  shows "wellSynced (nativeClick s)"
proof -
  from assms have "fallbackOnly s" "listenersConnected s"
    by (simp_all add: wellSynced_def)
  then have "wellSynced (onNativeInput (s\<lparr>native := x\<rparr>))" for x
    by (simp add: onNativeInput_wellSynced)
  then have "wellSynced (onNativeChange (onNativeInput (s\<lparr>native := x\<rparr>)))" for x
    by (intro onNativeChange_wellSynced) (simp_all add: wellSynced_def)
  with assms show ?thesis
    by (simp add: nativeClick_def Let_def)
qed

lemma onClick_wellSynced:
  "wellSynced s \<Longrightarrow> isConnected s \<Longrightarrow> wellSynced (onClick s)"
  by (simp add: onClick_def nativeClick_wellSynced)

lemma onKeyDown_wellSynced:
  "wellSynced s \<Longrightarrow> isConnected s \<Longrightarrow> wellSynced (fst (onKeyDown k s))"
  by (simp add: onKeyDown_def nativeClick_wellSynced)

lemma onFormReset_wellSynced:
  assumes "wellSynced s"
  shows "wellSynced (onFormReset s)"
proof -
  have *: "wellSynced (if b then setAttribute n [] t else removeAttribute n t)"
    if "wellSynced t" for b n t
    using that by (simp add: setAttribute_wellSynced removeAttribute_wellSynced)
  from assms have "wellSynced (if defaultChecked s then setAttribute ''checked'' [] s
                    else removeAttribute ''checked'' s)" (is "wellSynced ?s1")
    by (rule *)
  then have "wellSynced (if defaultIndeterminate ?s1 then setAttribute ''indeterminate'' [] ?s1
                    else removeAttribute ''indeterminate'' ?s1)" (is "wellSynced ?s2")
    by (rule *)
  then have "wellSynced (render (updateValidity (updateFormValue (updateHiddenInput ?s2))))"
    by (intro chain_wellSynced) (simp_all add: wellSynced_def)
  then show ?thesis
    by (simp add: onFormReset_def Let_def)
qed

lemma updateValidity_wellSynced [simp]: "wellSynced (updateValidity s) = wellSynced s"
  by (simp add: wellSynced_def fallbackOnly_def)

lemma checkValidity_wellSynced: "wellSynced s \<Longrightarrow> wellSynced (snd (checkValidity s))"
  by (simp add: checkValidity_def Let_def split: option.split)

lemma internals_flags_wellSynced:
  "internals s = Some i \<Longrightarrow>
   wellSynced (s\<lparr>internals := Some (i\<lparr>valueMissing := a, customError := b,
     validationMessage := c\<rparr>)\<rparr>) = wellSynced s"
  by (simp add: wellSynced_def formSynced_def fallbackOnly_def usesInternals_def hiddenFor_def
      formValueFor_def getter_defs cong: option.case_cong)

lemma setCustomValidity_wellSynced:
  "wellSynced s \<Longrightarrow> wellSynced (setCustomValidity m s)"
  by (simp add: setCustomValidity_def Let_def internals_flags_wellSynced split: option.split)

subsection \<open>The invariant under every operation\<close>

lemma setters_wellSynced:
  "wellSynced s \<Longrightarrow> wellSynced (set_checked b s)"
  "wellSynced s \<Longrightarrow> wellSynced (set_disabled b s)"
  "wellSynced s \<Longrightarrow> wellSynced (set_name v s)"
  "wellSynced s \<Longrightarrow> wellSynced (set_value v s)"
  "wellSynced s \<Longrightarrow> wellSynced (set_required b s)"
  "wellSynced s \<Longrightarrow> wellSynced (set_indeterminate b s)"
  by (simp_all add: set_checked_def set_disabled_def set_name_def set_value_def
      set_required_def set_indeterminate_def setAttribute_wellSynced
      removeAttribute_wellSynced split: option.split)

lemma upgradeProperties_wellSynced:
  "wellSynced s \<Longrightarrow> wellSynced (upgradeProperties s)"
  by (simp add: upgradeProperties_def upgradeChecked_def upgradeDisabled_def upgradeName_def
      upgradeValue_def upgradeIndeterminate_def setters_wellSynced split: option.split)

lemma defaultRoleAndTabindex_wellSynced:
  "wellSynced s \<Longrightarrow> wellSynced (defaultRoleAndTabindex s)"
  by (simp add: defaultRoleAndTabindex_def Let_def setAttribute_wellSynced)

lemma captureDefaults_wellSynced [simp]:
  "wellSynced (captureDefaults s) = wellSynced s"
  by (simp add: captureDefaults_def)


lemmas setter_defs = set_checked_def set_disabled_def set_name_def set_value_def
  set_required_def set_indeterminate_def

lemmas upgrade_defs = upgradeProperties_def upgradeChecked_def upgradeDisabled_def
  upgradeName_def upgradeValue_def upgradeIndeterminate_def

lemma sel_own_update [simp]:
  "usesInternals (s\<lparr>own := p\<rparr>) = usesInternals s"
  by (simp add: usesInternals_def)

lemma bool_setters_frame [simp]:
  "customValidity (set_checked b s) = customValidity s"
  "defaultChecked (set_checked b s) = defaultChecked s"
  "defaultIndeterminate (set_checked b s) = defaultIndeterminate s"
  "isConnected (set_checked b s) = isConnected s"
  "form (set_checked b s) = form s"
  "listening (set_checked b s) = listening s"
  "resetForms (set_checked b s) = resetForms s"
  "dispatched (set_checked b s) = dispatched s"
  "usesInternals (set_checked b s) = usesInternals s"
  "customValidity (set_disabled b s) = customValidity s"
  "defaultChecked (set_disabled b s) = defaultChecked s"
  "defaultIndeterminate (set_disabled b s) = defaultIndeterminate s"
  "isConnected (set_disabled b s) = isConnected s"
  "form (set_disabled b s) = form s"
  "listening (set_disabled b s) = listening s"
  "resetForms (set_disabled b s) = resetForms s"
  "dispatched (set_disabled b s) = dispatched s"
  "usesInternals (set_disabled b s) = usesInternals s"
  "customValidity (set_required b s) = customValidity s"
  "defaultChecked (set_required b s) = defaultChecked s"
  "defaultIndeterminate (set_required b s) = defaultIndeterminate s"
  "isConnected (set_required b s) = isConnected s"
  "form (set_required b s) = form s"
  "listening (set_required b s) = listening s"
  "resetForms (set_required b s) = resetForms s"
  "dispatched (set_required b s) = dispatched s"
  "usesInternals (set_required b s) = usesInternals s"
  "customValidity (set_indeterminate b s) = customValidity s"
  "defaultChecked (set_indeterminate b s) = defaultChecked s"
  "defaultIndeterminate (set_indeterminate b s) = defaultIndeterminate s"
  "isConnected (set_indeterminate b s) = isConnected s"
  "form (set_indeterminate b s) = form s"
  "listening (set_indeterminate b s) = listening s"
  "resetForms (set_indeterminate b s) = resetForms s"
  "dispatched (set_indeterminate b s) = dispatched s"
  "usesInternals (set_indeterminate b s) = usesInternals s"
  by (simp_all add: setter_defs)

lemma string_setters_frame [simp]:
  "customValidity (set_name v s) = customValidity s"
  "defaultChecked (set_name v s) = defaultChecked s"
  "defaultIndeterminate (set_name v s) = defaultIndeterminate s"
  "isConnected (set_name v s) = isConnected s"
  "form (set_name v s) = form s"
  "listening (set_name v s) = listening s"
  "resetForms (set_name v s) = resetForms s"
  "dispatched (set_name v s) = dispatched s"
  "usesInternals (set_name v s) = usesInternals s"
  "customValidity (set_value v s) = customValidity s"
  "defaultChecked (set_value v s) = defaultChecked s"
  "defaultIndeterminate (set_value v s) = defaultIndeterminate s"
  "isConnected (set_value v s) = isConnected s"
  "form (set_value v s) = form s"
  "listening (set_value v s) = listening s"
  "resetForms (set_value v s) = resetForms s"
  "dispatched (set_value v s) = dispatched s"
  "usesInternals (set_value v s) = usesInternals s"
  by (simp_all add: setter_defs split: option.split)

lemma upgradeChecked_frame [simp]:
  "customValidity (upgradeChecked s) = customValidity s"
  "defaultChecked (upgradeChecked s) = defaultChecked s"
  "defaultIndeterminate (upgradeChecked s) = defaultIndeterminate s"
  "isConnected (upgradeChecked s) = isConnected s"
  "form (upgradeChecked s) = form s"
  "listening (upgradeChecked s) = listening s"
  "resetForms (upgradeChecked s) = resetForms s"
  "dispatched (upgradeChecked s) = dispatched s"
  "usesInternals (upgradeChecked s) = usesInternals s"
  by (simp_all add: upgradeChecked_def split: option.split)

lemma upgradeDisabled_frame [simp]:
  "customValidity (upgradeDisabled s) = customValidity s"
  "defaultChecked (upgradeDisabled s) = defaultChecked s"
  "defaultIndeterminate (upgradeDisabled s) = defaultIndeterminate s"
  "isConnected (upgradeDisabled s) = isConnected s"
  "form (upgradeDisabled s) = form s"
  "listening (upgradeDisabled s) = listening s"
  "resetForms (upgradeDisabled s) = resetForms s"
  "dispatched (upgradeDisabled s) = dispatched s"
  "usesInternals (upgradeDisabled s) = usesInternals s"
  by (simp_all add: upgradeDisabled_def split: option.split)

lemma upgradeName_frame [simp]:
  "customValidity (upgradeName s) = customValidity s"
  "defaultChecked (upgradeName s) = defaultChecked s"
  "defaultIndeterminate (upgradeName s) = defaultIndeterminate s"
  "isConnected (upgradeName s) = isConnected s"
  "form (upgradeName s) = form s"
  "listening (upgradeName s) = listening s"
  "resetForms (upgradeName s) = resetForms s"
  "dispatched (upgradeName s) = dispatched s"
  "usesInternals (upgradeName s) = usesInternals s"
  by (simp_all add: upgradeName_def split: option.split)

lemma upgradeValue_frame [simp]:
  "customValidity (upgradeValue s) = customValidity s"
  "defaultChecked (upgradeValue s) = defaultChecked s"
  "defaultIndeterminate (upgradeValue s) = defaultIndeterminate s"
  "isConnected (upgradeValue s) = isConnected s"
  "form (upgradeValue s) = form s"
  "listening (upgradeValue s) = listening s"
  "resetForms (upgradeValue s) = resetForms s"
  "dispatched (upgradeValue s) = dispatched s"
  "usesInternals (upgradeValue s) = usesInternals s"
  by (simp_all add: upgradeValue_def split: option.split)

lemma upgradeIndeterminate_frame [simp]:
  "customValidity (upgradeIndeterminate s) = customValidity s"
  "defaultChecked (upgradeIndeterminate s) = defaultChecked s"
  "defaultIndeterminate (upgradeIndeterminate s) = defaultIndeterminate s"
  "isConnected (upgradeIndeterminate s) = isConnected s"
  "form (upgradeIndeterminate s) = form s"
  "listening (upgradeIndeterminate s) = listening s"
  "resetForms (upgradeIndeterminate s) = resetForms s"
  "dispatched (upgradeIndeterminate s) = dispatched s"
  "usesInternals (upgradeIndeterminate s) = usesInternals s"
  by (simp_all add: upgradeIndeterminate_def split: option.split)

lemma upgradeProperties_frame [simp]:
  "customValidity (upgradeProperties s) = customValidity s"
  "defaultChecked (upgradeProperties s) = defaultChecked s"
  "defaultIndeterminate (upgradeProperties s) = defaultIndeterminate s"
  "isConnected (upgradeProperties s) = isConnected s"
  "form (upgradeProperties s) = form s"
  "listening (upgradeProperties s) = listening s"
  "resetForms (upgradeProperties s) = resetForms s"
  "dispatched (upgradeProperties s) = dispatched s"
  "usesInternals (upgradeProperties s) = usesInternals s"
  by (simp_all add: upgradeProperties_def)

lemma defaultRoleAndTabindex_frame [simp]:
  "customValidity (defaultRoleAndTabindex s) = customValidity s"
  "defaultChecked (defaultRoleAndTabindex s) = defaultChecked s"
  "defaultIndeterminate (defaultRoleAndTabindex s) = defaultIndeterminate s"
  "own (defaultRoleAndTabindex s) = own s"
  "isConnected (defaultRoleAndTabindex s) = isConnected s"
  "form (defaultRoleAndTabindex s) = form s"
  "listening (defaultRoleAndTabindex s) = listening s"
  "resetForms (defaultRoleAndTabindex s) = resetForms s"
  "dispatched (defaultRoleAndTabindex s) = dispatched s"
  "usesInternals (defaultRoleAndTabindex s) = usesInternals s"
  by (simp_all add: defaultRoleAndTabindex_def Let_def)

lemma captureDefaults_frame [simp]:
  "attrs (captureDefaults s) = attrs s"
  "native (captureDefaults s) = native s"
  "internals (captureDefaults s) = internals s"
  "hiddenInput (captureDefaults s) = hiddenInput s"
  "customValidity (captureDefaults s) = customValidity s"
  "own (captureDefaults s) = own s"
  "isConnected (captureDefaults s) = isConnected s"
  "form (captureDefaults s) = form s"
  "listening (captureDefaults s) = listening s"
  "resetForms (captureDefaults s) = resetForms s"
  "dispatched (captureDefaults s) = dispatched s"
  "defaultChecked (captureDefaults s) = hasAttribute s ''checked''"
  "defaultIndeterminate (captureDefaults s) = hasAttribute s ''indeterminate''"
  by (simp_all add: captureDefaults_def)

lemma coreSynced_steps:
  "coreSynced s \<Longrightarrow> coreSynced (setAttribute n v s)"
  "coreSynced s \<Longrightarrow> coreSynced (removeAttribute n s)"
  by (simp_all add: coreSynced_def setAttribute_checkedSynced setAttribute_fallbackOnly
      removeAttribute_checkedSynced removeAttribute_fallbackOnly)

lemma coreSynced_updates [simp]:
  "coreSynced (s\<lparr>isConnected := b\<rparr>) = coreSynced s"
  "coreSynced (s\<lparr>form := f\<rparr>) = coreSynced s"
  "coreSynced (s\<lparr>listening := b\<rparr>) = coreSynced s"
  "coreSynced (s\<lparr>resetForms := r\<rparr>) = coreSynced s"
  "coreSynced (s\<lparr>own := p\<rparr>) = coreSynced s"
  "coreSynced (captureDefaults s) = coreSynced s"
  by (simp_all add: coreSynced_def captureDefaults_def)

lemma coreSynced_connect_prefix:
  "coreSynced s \<Longrightarrow> coreSynced (defaultRoleAndTabindex s)"
  "coreSynced s \<Longrightarrow> coreSynced (upgradeProperties s)"
  by (simp_all add: defaultRoleAndTabindex_def Let_def upgrade_defs setter_defs
      coreSynced_steps split: option.split)

lemma formSynced_updateFormValue:
  "fallbackOnly s \<Longrightarrow> formSynced (updateFormValue s)"
  by (cases "internals s"; cases "hiddenInput s")
     (simp_all add: formSynced_def fallbackOnly_def hiddenInput_updateFormValue
       hiddenInput_update internals_updateFormValue usesInternals_def)

lemma connectedCallback_wellSynced:
  assumes "coreSynced s" "isConnected s"
  shows "wellSynced (connectedCallback s)"
proof -
  let ?s5 = "upgradeProperties (captureDefaults (defaultRoleAndTabindex s))"
  let ?s7 = "(render ?s5)\<lparr>listening := True\<rparr>"
  let ?s8 = "ensureHiddenInput (updateValidity (updateFormValue ?s7))"
  from assms(1) have "coreSynced ?s5"
    by (simp add: coreSynced_connect_prefix)
  then have core: "checkedSynced ?s7" "fallbackOnly ?s7"
    by (simp_all add: coreSynced_def fallbackOnly_basic)
  from core(2) have "formSynced ?s8"
    by (simp add: formSynced_ensure formSynced_updateFormValue)
  moreover from core have "checkedSynced ?s8" "fallbackOnly ?s8"
    by (simp_all add: fallbackOnly_basic)
  moreover from assms(2) have "listenersConnected ?s8"
    by (simp add: listenersConnected_def)
  ultimately have "wellSynced ?s8"
    by (simp add: wellSynced_def)
  then show ?thesis
    by (simp add: connectedCallback_def Let_def split: option.split)
qed

lemma disconnectedCallback_wellSynced:
  assumes "coreSynced s" "formSynced s" "\<not> isConnected s"
  shows "wellSynced (disconnectedCallback s)"
  using assms
  by (simp add: disconnectedCallback_def Let_def wellSynced_def coreSynced_def
      listenersConnected_def split: option.split)

lemma place_updates [simp]:
  "hiddenFor (s\<lparr>isConnected := b\<rparr>) = hiddenFor s"
  "hiddenFor (s\<lparr>form := f\<rparr>) = hiddenFor s"
  "formValueFor (s\<lparr>isConnected := b\<rparr>) = formValueFor s"
  "formValueFor (s\<lparr>form := f\<rparr>) = formValueFor s"
  "get_name (s\<lparr>isConnected := b\<rparr>) = get_name s"
  "get_name (s\<lparr>form := f\<rparr>) = get_name s"
  by (rule hiddenFor_cong formValueFor_cong get_name_cong; simp)+

lemma formSynced_disconnect:
  "formSynced s \<Longrightarrow> formSynced (s\<lparr>isConnected := False, form := f\<rparr>)"
  by (cases "internals s"; cases "hiddenInput s")
     (simp_all add: formSynced_def usesInternals_def)

lemma formSynced_detached:
  "formSynced s \<Longrightarrow> \<not> isConnected s \<Longrightarrow> formSynced (s\<lparr>form := f\<rparr>)"
  by (cases "internals s"; cases "hiddenInput s")
     (simp_all add: formSynced_def usesInternals_def)

lemma constructor_wellSynced: "wellSynced (constructor a p)"
  by (simp add: wellSynced_def checkedSynced_def formSynced_def fallbackOnly_def
      listenersConnected_def constructor_def getter_defs usesInternals_def formValueFor_def)

lemma step_wellSynced:
  assumes "wellSynced s"
  shows "wellSynced (step x s)"
proof (cases x)
  case (Connect f)
  from assms have "coreSynced (s\<lparr>isConnected := True, form := f\<rparr>)"
    by (simp add: wellSynced_def coreSynced_def)
  with Connect show ?thesis
    by (simp add: connectedCallback_wellSynced)
next
  case (Disconnect k)
  from assms have "coreSynced (s\<lparr>isConnected := False, form := f\<rparr>)"
    and "formSynced (s\<lparr>isConnected := False, form := f\<rparr>)" for f
    by (simp_all add: wellSynced_def coreSynced_def formSynced_disconnect)
  with Disconnect show ?thesis
    by (simp add: disconnectedCallback_wellSynced)
next
  case (Detached f)
  with assms show ?thesis
    by (simp add: wellSynced_def formSynced_detached listenersConnected_def)
next
  case UserClick
  with assms show ?thesis
    by (simp add: onClick_wellSynced wellSynced_def [of s] listenersConnected_def)
next
  case (UserKeyDown k)
  with assms show ?thesis
    by (simp add: onKeyDown_wellSynced wellSynced_def [of s] listenersConnected_def)
qed (use assms in \<open>simp_all add: setAttribute_wellSynced removeAttribute_wellSynced
  setters_wellSynced toggle_wellSynced checkValidity_wellSynced setCustomValidity_wellSynced
  onFormReset_wellSynced\<close>)

lemma run_wellSynced: "wellSynced s \<Longrightarrow> wellSynced (run xs s)"
  by (induction xs arbitrary: s) (simp_all add: step_wellSynced)

subsection \<open>What the handlers leave unchanged\<close>

lemma dispatchEvent_frame [simp]:
  "attrs (dispatchEvent e s) = attrs s"
  "native (dispatchEvent e s) = native s"
  "internals (dispatchEvent e s) = internals s"
  "hiddenInput (dispatchEvent e s) = hiddenInput s"
  "customValidity (dispatchEvent e s) = customValidity s"
  "defaultChecked (dispatchEvent e s) = defaultChecked s"
  "defaultIndeterminate (dispatchEvent e s) = defaultIndeterminate s"
  "isConnected (dispatchEvent e s) = isConnected s"
  "form (dispatchEvent e s) = form s"
  "listening (dispatchEvent e s) = listening s"
  "resetForms (dispatchEvent e s) = resetForms s"
  "dispatched (dispatchEvent e s) = dispatched s @ [e]"
  by (simp_all add: dispatchEvent_def)

lemma toggle_frame [simp]:
  "dispatched (toggle s) = dispatched s"
  "isConnected (toggle s) = isConnected s"
  "form (toggle s) = form s"
  "defaultChecked (toggle s) = defaultChecked s"
  "defaultIndeterminate (toggle s) = defaultIndeterminate s"
  "resetForms (toggle s) = resetForms s"
  by (simp_all add: toggle_def Let_def)

lemma onFormReset_frame [simp]:
  "dispatched (onFormReset s) = dispatched s"
  "isConnected (onFormReset s) = isConnected s"
  "form (onFormReset s) = form s"
  "defaultChecked (onFormReset s) = defaultChecked s"
  "defaultIndeterminate (onFormReset s) = defaultIndeterminate s"
  "resetForms (onFormReset s) = resetForms s"
  by (simp_all add: onFormReset_def Let_def)

lemma onNativeInput_frame [simp]:
  "dispatched (onNativeInput s) = dispatched s @ [Event ''input'' True True False]"
  "defaultChecked (onNativeInput s) = defaultChecked s"
  "defaultIndeterminate (onNativeInput s) = defaultIndeterminate s"
  "resetForms (onNativeInput s) = resetForms s"
  "isConnected (onNativeInput s) = isConnected s"
  "form (onNativeInput s) = form s"
  by (simp_all add: onNativeInput_def Let_def)

lemma onNativeChange_frame [simp]:
  "dispatched (onNativeChange s) = dispatched s @ [Event ''change'' True True False]"
  "defaultChecked (onNativeChange s) = defaultChecked s"
  "defaultIndeterminate (onNativeChange s) = defaultIndeterminate s"
  "resetForms (onNativeChange s) = resetForms s"
  "isConnected (onNativeChange s) = isConnected s"
  "form (onNativeChange s) = form s"
  by (simp_all add: onNativeChange_def Let_def)

lemma nativeClick_frame [simp]:
  "isConnected (nativeClick s) = isConnected s"
  "form (nativeClick s) = form s"
  "defaultChecked (nativeClick s) = defaultChecked s"
  "defaultIndeterminate (nativeClick s) = defaultIndeterminate s"
  "resetForms (nativeClick s) = resetForms s"
  by (simp_all add: nativeClick_def Let_def)

lemma nativeClick_dispatched:
  "dispatched (nativeClick s) =
     (if \<not> n_disabled (native s) \<and> isConnected s
      then dispatched s @ [Event ''input'' True True False, Event ''change'' True True False]
      else dispatched s)"
  by (simp add: nativeClick_def Let_def)

lemma onClick_frame [simp]:
  "isConnected (onClick s) = isConnected s"
  "form (onClick s) = form s"
  "isConnected (fst (onKeyDown k s)) = isConnected s"
  "form (fst (onKeyDown k s)) = form s"
  "defaultChecked (onClick s) = defaultChecked s"
  "defaultIndeterminate (onClick s) = defaultIndeterminate s"
  "resetForms (onClick s) = resetForms s"
  "defaultChecked (fst (onKeyDown k s)) = defaultChecked s"
  "defaultIndeterminate (fst (onKeyDown k s)) = defaultIndeterminate s"
  "resetForms (fst (onKeyDown k s)) = resetForms s"
  by (simp_all add: onClick_def onKeyDown_def)

lemma validity_frame [simp]:
  "isConnected (snd (checkValidity s)) = isConnected s"
  "form (snd (checkValidity s)) = form s"
  "isConnected (setCustomValidity m s) = isConnected s"
  "form (setCustomValidity m s) = form s"
  "dispatched (snd (checkValidity s)) = dispatched s"
  "defaultChecked (snd (checkValidity s)) = defaultChecked s"
  "defaultIndeterminate (snd (checkValidity s)) = defaultIndeterminate s"
  "resetForms (snd (checkValidity s)) = resetForms s"
  "dispatched (setCustomValidity m s) = dispatched s"
  "defaultChecked (setCustomValidity m s) = defaultChecked s"
  "defaultIndeterminate (setCustomValidity m s) = defaultIndeterminate s"
  "resetForms (setCustomValidity m s) = resetForms s"
  by (simp_all add: checkValidity_def setCustomValidity_def Let_def split: option.split)

lemma connection_frame [simp]:
  "dispatched (connectedCallback s) = dispatched s"
  "dispatched (disconnectedCallback s) = dispatched s"
  by (simp_all add: connectedCallback_def disconnectedCallback_def Let_def split: option.split)

lemma usesInternals_handlers [simp]:
  "usesInternals (dispatchEvent e s) = usesInternals s"
  "usesInternals (s\<lparr>isConnected := b\<rparr>) = usesInternals s"
  "usesInternals (s\<lparr>form := f\<rparr>) = usesInternals s"
  "usesInternals (s\<lparr>listening := b\<rparr>) = usesInternals s"
  "usesInternals (s\<lparr>resetForms := r\<rparr>) = usesInternals s"
  "usesInternals (s\<lparr>customValidity := m\<rparr>) = usesInternals s"
  "usesInternals (captureDefaults s) = usesInternals s"
  by (simp_all add: usesInternals_def dispatchEvent_def)

lemma usesInternals_methods [simp]:
  "usesInternals (toggle s) = usesInternals s"
  "usesInternals (onFormReset s) = usesInternals s"
  "usesInternals (onNativeInput s) = usesInternals s"
  "usesInternals (onNativeChange s) = usesInternals s"
  "usesInternals (snd (checkValidity s)) = usesInternals s"
  "usesInternals (disconnectedCallback s) = usesInternals s"
  by (simp_all add: toggle_def onFormReset_def onNativeInput_def onNativeChange_def
      checkValidity_def disconnectedCallback_def Let_def split: option.split)

lemma usesInternals_click [simp]:
  "usesInternals (nativeClick s) = usesInternals s"
  "usesInternals (onClick s) = usesInternals s"
  "usesInternals (fst (onKeyDown k s)) = usesInternals s"
  by (simp_all add: nativeClick_def onClick_def onKeyDown_def Let_def)

lemma usesInternals_setCustomValidity [simp]:
  "usesInternals (setCustomValidity m s) = usesInternals s"
  by (cases "internals s")
     (simp_all add: setCustomValidity_def Let_def usesInternals_def internals_updateValidity)

lemma usesInternals_connectedCallback [simp]:
  "usesInternals (connectedCallback s) = usesInternals s"
  by (simp add: connectedCallback_def Let_def split: option.split)

lemma usesInternals_step [simp]: "usesInternals (step x s) = usesInternals s"
  by (cases x) simp_all

lemma usesInternals_run [simp]: "usesInternals (run xs s) = usesInternals s"
  by (induction xs arbitrary: s) simp_all

lemma getters_updateValidity [simp]:
  "get_required (updateValidity s) = get_required s"
  "get_checked (updateValidity s) = get_checked s"
  by (simp_all add: getter_defs)

lemma onFormReset_attributes:
  "hasAttribute (onFormReset s) ''checked'' = defaultChecked s"
  "hasAttribute (onFormReset s) ''indeterminate'' = defaultIndeterminate s"
  by (simp_all add: onFormReset_def Let_def hasAttribute_def)

lemma connectedCallback_defaults:
  "defaultChecked (connectedCallback s) = hasAttribute s ''checked''"
  "defaultIndeterminate (connectedCallback s) = hasAttribute s ''indeterminate''"
  "isConnected (connectedCallback s) = isConnected s"
  "form (connectedCallback s) = form s"
  "resetForms (connectedCallback s) =
     (case form s of Some g \<Rightarrow> List.insert g (resetForms s) | None \<Rightarrow> resetForms s)"
  by (simp_all add: connectedCallback_def Let_def defaultRoleAndTabindex_def hasAttribute_def
      split: option.split)

lemma step_keepsConnection:
  assumes "keepsConnection x" "isConnected s"
  shows "defaultChecked (step x s) = defaultChecked s"
    and "defaultIndeterminate (step x s) = defaultIndeterminate s"
    and "resetForms (step x s) = resetForms s"
    and "isConnected (step x s)"
    and "form (step x s) = form s"
  using assms by (cases x; simp add: keepsConnection_def)+

lemma run_keepsConnection:
  assumes "list_all keepsConnection xs" "isConnected s"
  shows "defaultChecked (run xs s) = defaultChecked s
    \<and> defaultIndeterminate (run xs s) = defaultIndeterminate s
    \<and> resetForms (run xs s) = resetForms s
    \<and> isConnected (run xs s) \<and> form (run xs s) = form s"
  using assms
proof (induction xs arbitrary: s)
  case Nil
  then show ?case by simp
next
  case (Cons x xs)
  from Cons.prems have k: "keepsConnection x" and c: "isConnected s"
    by simp_all
  from Cons.prems step_keepsConnection(4) [OF k c]
  have "defaultChecked (run xs (step x s)) = defaultChecked (step x s)
    \<and> defaultIndeterminate (run xs (step x s)) = defaultIndeterminate (step x s)
    \<and> resetForms (run xs (step x s)) = resetForms (step x s)
    \<and> isConnected (run xs (step x s)) \<and> form (run xs (step x s)) = form (step x s)"
    by (intro Cons.IH) simp_all
  with step_keepsConnection [OF k c] show ?case
    by simp
qed

lemma render_aria_invalid [simp]:
  "attrs (render s) ''aria-invalid'' = attrs s ''aria-invalid''"
  by (simp add: render_def Let_def sel_if)

lemma validitySynced_chain:
  "validitySynced (render (updateValidity s))"
  by (cases "internals s")
     (auto simp add: validitySynced_def internals_updateValidity getter_defs updateValidity_def
       Let_def)

lemma onFormReset_validitySynced: "validitySynced (onFormReset s)"
  by (simp add: onFormReset_def Let_def validitySynced_chain)

lemma upgradeAttribute_frame [simp]:
  "isConnected (upgradeAttribute nv s) = isConnected s"
  "form (upgradeAttribute nv s) = form s"
  "listening (upgradeAttribute nv s) = listening s"
  "usesInternals (upgradeAttribute nv s) = usesInternals s"
  "m \<notin> set managed \<Longrightarrow> attrs (upgradeAttribute nv s) m = attrs s m"
  by (simp_all add: upgradeAttribute_def)

lemma upgradeAttribute_fallbackOnly:
  "fallbackOnly s \<Longrightarrow> fallbackOnly (upgradeAttribute nv s)"
  by (simp add: upgradeAttribute_def acc_fallbackOnly)

lemma upgradeAttribute_checkedSynced:
  "fst nv = ''checked'' \<Longrightarrow> checkedSynced (upgradeAttribute nv s)"
  "fst nv \<noteq> ''checked'' \<Longrightarrow> checkedSynced s \<Longrightarrow> checkedSynced (upgradeAttribute nv s)"
  by (simp_all add: upgradeAttribute_def checkedSynced_def getter_defs acc_native
      observedAttributes_def)

lemma upgradeAttribute_formSynced:
  "fst nv = ''name'' \<or> fst nv = ''value'' \<or> fst nv = ''checked'' \<or> fst nv = ''indeterminate''
   \<Longrightarrow> formSynced (upgradeAttribute nv s)"
  "formSynced s \<Longrightarrow> formSynced (upgradeAttribute nv s)"
  by (auto simp add: upgradeAttribute_def acc_formSynced acc_formSynced_fresh
      observedAttributes_def)

lemma fold_upgradeAttribute:
  assumes "fallbackOnly s"
    and "checkedSynced s \<or> ''checked'' \<in> fst ` set l"
    and "formSynced s \<or> fst ` set l \<inter> set formNames \<noteq> {}"
  shows "checkedSynced (fold upgradeAttribute l s) \<and> formSynced (fold upgradeAttribute l s)
    \<and> fallbackOnly (fold upgradeAttribute l s)"
  using assms
proof (induction l arbitrary: s)
  case Nil
  then show ?case by simp
next
  case (Cons nv l)
  have "fallbackOnly (upgradeAttribute nv s)"
    using Cons.prems(1) by (rule upgradeAttribute_fallbackOnly)
  moreover have "checkedSynced (upgradeAttribute nv s) \<or> ''checked'' \<in> fst ` set l"
    using Cons.prems(2) upgradeAttribute_checkedSynced [of nv s] by auto
  moreover have "formSynced (upgradeAttribute nv s) \<or> fst ` set l \<inter> set formNames \<noteq> {}"
  proof (cases "fst nv \<in> set formNames")
    case True
    then show ?thesis
      by (simp add: formNames_def upgradeAttribute_formSynced(1))
  next
    case False
    with Cons.prems(3) show ?thesis
      by (auto simp add: upgradeAttribute_formSynced(2))
  qed
  ultimately show ?case
    using Cons.IH [of "upgradeAttribute nv s"] by simp
qed

lemma fold_upgradeAttribute_frame [simp]:
  "isConnected (fold upgradeAttribute l s) = isConnected s"
  "form (fold upgradeAttribute l s) = form s"
  "listening (fold upgradeAttribute l s) = listening s"
  "usesInternals (fold upgradeAttribute l s) = usesInternals s"
  "m \<notin> set managed \<Longrightarrow> attrs (fold upgradeAttribute l s) m = attrs s m"
  by (induction l arbitrary: s) simp_all

lemma upgraded_wellSynced: "wellSynced (upgraded a p al c f)"
proof -
  let ?s0 = "(constructor a p)\<lparr>attrs := map_of al, isConnected := c, form := f\<rparr>"
  let ?s1 = "fold upgradeAttribute al ?s0"
  have "fallbackOnly ?s0"
    by (simp add: fallbackOnly_def constructor_def)
  moreover have "checkedSynced ?s0 \<or> ''checked'' \<in> fst ` set al"
    by (auto simp add: checkedSynced_def getter_defs constructor_def map_of_eq_None_iff)
  moreover have "formSynced ?s0 \<or> fst ` set al \<inter> set formNames \<noteq> {}"
  proof (cases "map_of al ''name''")
    case None
    then show ?thesis
      by (simp add: formSynced_def formValueFor_def getter_defs constructor_def truthy_def)
  next
    case (Some v)
    then have "''name'' \<in> fst ` set al"
      by (metis map_of_eq_None_iff option.distinct(1))
    then show ?thesis
      by (auto simp add: formNames_def)
  qed
  ultimately have s1: "checkedSynced ?s1" "formSynced ?s1" "fallbackOnly ?s1"
    using fold_upgradeAttribute [of ?s0 al] by simp_all
  have frame: "isConnected ?s1 = c" "listening ?s1 = False"
    by (simp_all add: constructor_def)
  show ?thesis
  proof (cases c)
    case True
    with s1 frame have "wellSynced (connectedCallback ?s1)"
      by (intro connectedCallback_wellSynced) (simp_all add: coreSynced_def)
    with True show ?thesis
      by (simp add: upgraded_def Let_def)
  next
    case False
    with s1 frame show ?thesis
      by (simp add: upgraded_def Let_def wellSynced_def listenersConnected_def)
  qed
qed



lemma initial_wellSynced: "wellSynced (initial x)"
  by (cases x) (simp_all add: constructor_wellSynced upgraded_wellSynced)

lemma step_dispatched: "\<not> userOperation x \<Longrightarrow> dispatched (step x s) = dispatched s"
  by (cases x) (simp_all add: userOperation_def)

subsection \<open>The hidden input under every method\<close>




lemma usesInternals_mirrorAttribute [simp]:
  "usesInternals (mirrorAttribute n s) = usesInternals s"
  by (simp add: usesInternals_def)


lemma tracedSameName_writeHiddenInput: "tracedSameName s (writeHiddenInput s)"
  by (cases "hiddenInput s")
     (simp_all add: tracedSameName_def hiddenTraced_def created_def hiddenInput_write)







































subsection \<open>The claims\<close>

lemma reachable_wellSynced: "wellSynced (run xs (initial el))"
  by (simp add: run_wellSynced initial_wellSynced)

lemma upgraded_defaults:
  "defaultChecked (upgraded a p al True f) = (map_of al ''checked'' \<noteq> None)"
  "defaultIndeterminate (upgraded a p al True f) = (map_of al ''indeterminate'' \<noteq> None)"
  "isConnected (upgraded a p al True f)"
  "g \<in> set (resetForms (upgraded a p al True (Some g)))"
  by (simp_all add: upgraded_def Let_def connectedCallback_defaults hasAttribute_def)

lemma reset_after_connection:
  assumes "wellSynced s1" "isConnected s1" "g \<in> set (resetForms s1)" "list_all keepsConnection xs"
  shows "hasAttribute (step (FormReset g) (run xs s1)) ''checked'' = defaultChecked s1"
    and "hasAttribute (step (FormReset g) (run xs s1)) ''indeterminate'' = defaultIndeterminate s1"
    and "get_checked (step (FormReset g) (run xs s1)) = defaultChecked s1"
    and "formSynced (step (FormReset g) (run xs s1))"
    and "validitySynced (step (FormReset g) (run xs s1))"
proof -
  define s2 where "s2 = run xs s1"
  define s3 where "s3 = step (FormReset g) s2"
  from run_keepsConnection [OF assms(4) assms(2)] assms(3)
  have s2: "defaultChecked s2 = defaultChecked s1"
    "defaultIndeterminate s2 = defaultIndeterminate s1" "g \<in> set (resetForms s2)"
    by (simp_all add: s2_def)
  then have s3: "s3 = onFormReset s2"
    by (simp add: s3_def)
  from assms(1) have "wellSynced s3"
    unfolding s3_def s2_def by (intro step_wellSynced run_wellSynced)
  then have "get_checked s3 = hasAttribute s3 ''checked''" "formSynced s3"
    by (simp_all add: wellSynced_def checkedSynced_def)
  with s2 s3 have "hasAttribute s3 ''checked'' = defaultChecked s1
      \<and> hasAttribute s3 ''indeterminate'' = defaultIndeterminate s1
      \<and> get_checked s3 = defaultChecked s1 \<and> formSynced s3 \<and> validitySynced s3"
    by (simp add: onFormReset_attributes onFormReset_validitySynced)
  then show "hasAttribute (step (FormReset g) (run xs s1)) ''checked'' = defaultChecked s1"
    and "hasAttribute (step (FormReset g) (run xs s1)) ''indeterminate'' = defaultIndeterminate s1"
    and "get_checked (step (FormReset g) (run xs s1)) = defaultChecked s1"
    and "formSynced (step (FormReset g) (run xs s1))"
    and "validitySynced (step (FormReset g) (run xs s1))"
    unfolding s3_def s2_def by simp_all
qed




text \<open>
  Claim C1.  Whatever the page, the user and the browser have done to an element since
  its construction or upgrade (attribute changes, property setters, clicks and keys,
  \<open>toggle()\<close>, form resets, connections), its \<open>checked\<close> property, read from the
  native checkbox, is true exactly when the host has the \<open>checked\<close> attribute.
\<close>

theorem checked_property_mirrors_attribute:
  "get_checked (run xs (initial el)) = hasAttribute (run xs (initial el)) ''checked''"
  using reachable_wellSynced [of xs el] by (simp add: wellSynced_def checkedSynced_def)

theorem checked_property_mirrors_attribute_witness:
  "get_checked (run [UserClick, SetChecked True, Toggle, FormReset 1] (initial readmeElement)) =
   hasAttribute (run [UserClick, SetChecked True, Toggle, FormReset 1] (initial readmeElement))
     ''checked''"
  by (rule checked_property_mirrors_attribute)

text \<open>
  Claim C2.  It fails on the code: \<open>toggle()\<close> clears \<open>indeterminate\<close> on the native checkbox
  only: the property becomes false while the attribute stays on the host.
\<close>

theorem toggle_leaves_indeterminate_attribute:
  "get_indeterminate (run [SetIndeterminate True] (constructor True noOwnProps))
   \<and> hasAttribute (run [SetIndeterminate True] (constructor True noOwnProps)) ''indeterminate''
   \<and> \<not> get_indeterminate (run [SetIndeterminate True, Toggle] (constructor True noOwnProps))
   \<and> hasAttribute (run [SetIndeterminate True, Toggle] (constructor True noOwnProps))
        ''indeterminate''"
  by code_simp

text \<open>
  Claim C3.  It fails on the code in the fallback path.  The README element, upgraded
  in form 1 without internals, is taken out of form 1 and inserted into form 2.  It
  is then connected, in form 2, checked and named, but its hidden input is still the
  one in form 1: \<open>_ensureHiddenInput\<close> neither removes it, the element being in a form,
  nor creates one in form 2, the element having a hidden input.  Form 2 submits
  nothing for the element and form 1 goes on submitting its name and value.
\<close>

theorem moved_element_keeps_input_in_old_form:
  "hiddenInput (initial readmeFallback)
     = Some \<lparr>h_name = Some ''likesCoding'', h_value = Some ''on'', h_parent = Some 1\<rparr>
   \<and> isConnected (run [Disconnect False, Connect (Some 2)] (initial readmeFallback))
   \<and> form (run [Disconnect False, Connect (Some 2)] (initial readmeFallback)) = Some 2
   \<and> \<not> usesInternals (run [Disconnect False, Connect (Some 2)] (initial readmeFallback))
   \<and> get_checked (run [Disconnect False, Connect (Some 2)] (initial readmeFallback))
   \<and> get_name (run [Disconnect False, Connect (Some 2)] (initial readmeFallback))
       = Some ''likesCoding''
   \<and> get_value (run [Disconnect False, Connect (Some 2)] (initial readmeFallback)) = ''on''
   \<and> hiddenInput (run [Disconnect False, Connect (Some 2)] (initial readmeFallback))
       = Some \<lparr>h_name = Some ''likesCoding'', h_value = Some ''on'', h_parent = Some 1\<rparr>
   \<and> hiddenInput (run [Disconnect False, Connect (Some 2), SetValue (Some ''yes'')]
        (initial readmeFallback))
       = Some \<lparr>h_name = Some ''likesCoding'', h_value = Some ''yes'', h_parent = Some 1\<rparr>"
  by code_simp




text \<open>
  Claim C5.  In every state an element can reach, a click on the control of an element
  that is not disabled and has its listeners registered dispatches a bubbling,
  composed \<open>input\<close> event and then a bubbling, composed \<open>change\<close> event on the host
  (followed by the host's own \<open>click\<close>), and so does a Space, Spacebar or Enter key.
  The \<open>checked\<close> setter, setting and removing the \<open>checked\<close> attribute, \<open>toggle()\<close>
  and the reset handler dispatch nothing, and neither does any other operation that is
  not a click or a key.
\<close>

theorem events_only_on_user_interaction:
  "let s = run xs (initial el) in
     (listening s \<and> \<not> get_disabled s \<longrightarrow>
        dispatched (step UserClick s) =
          dispatched s @ [Event ''input'' True True False, Event ''change'' True True False,
            Event ''click'' True True True])
     \<and> (listening s \<and> \<not> get_disabled s \<and> (k = '' '' \<or> k = ''Spacebar'' \<or> k = ''Enter'') \<longrightarrow>
        dispatched (step (UserKeyDown k) s) =
          dispatched s @ [Event ''input'' True True False, Event ''change'' True True False])
     \<and> dispatched (set_checked b s) = dispatched s
     \<and> dispatched (setAttribute ''checked'' v s) = dispatched s
     \<and> dispatched (removeAttribute ''checked'' s) = dispatched s
     \<and> dispatched (toggle s) = dispatched s
     \<and> dispatched (onFormReset s) = dispatched s
     \<and> (\<not> userOperation x \<longrightarrow> dispatched (step x s) = dispatched s)"
proof -
  define s where "s = run xs (initial el)"
  have "wellSynced s"
    unfolding s_def by (rule reachable_wellSynced)
  then have conn: "listening s \<Longrightarrow> isConnected s"
    by (simp add: wellSynced_def listenersConnected_def split: if_splits)
  have click: "dispatched (step UserClick s) =
      dispatched s @ [Event ''input'' True True False, Event ''change'' True True False,
        Event ''click'' True True True]" if "listening s" "\<not> get_disabled s"
    using that conn by (simp add: onClick_def nativeClick_dispatched get_disabled_def)
  have key: "dispatched (step (UserKeyDown k) s) =
      dispatched s @ [Event ''input'' True True False, Event ''change'' True True False]"
    if "listening s" "\<not> get_disabled s" "k = '' '' \<or> k = ''Spacebar'' \<or> k = ''Enter''"
    using that conn by (auto simp add: onKeyDown_def nativeClick_dispatched get_disabled_def)
  from click key step_dispatched [of x s]
  have "(listening s \<and> \<not> get_disabled s \<longrightarrow>
        dispatched (step UserClick s) =
          dispatched s @ [Event ''input'' True True False, Event ''change'' True True False,
            Event ''click'' True True True])
     \<and> (listening s \<and> \<not> get_disabled s \<and> (k = '' '' \<or> k = ''Spacebar'' \<or> k = ''Enter'') \<longrightarrow>
        dispatched (step (UserKeyDown k) s) =
          dispatched s @ [Event ''input'' True True False, Event ''change'' True True False])
     \<and> dispatched (set_checked b s) = dispatched s
     \<and> dispatched (setAttribute ''checked'' v s) = dispatched s
     \<and> dispatched (removeAttribute ''checked'' s) = dispatched s
     \<and> dispatched (toggle s) = dispatched s
     \<and> dispatched (onFormReset s) = dispatched s
     \<and> (\<not> userOperation x \<longrightarrow> dispatched (step x s) = dispatched s)"
    by simp
  then show ?thesis
    unfolding s_def Let_def .
qed

theorem events_only_on_user_interaction_witness:
  "dispatched (step UserClick (initial readmeElement)) =
     [Event ''input'' True True False, Event ''change'' True True False,
      Event ''click'' True True True]
   \<and> dispatched (step (UserKeyDown ''Enter'') (initial readmeElement)) =
     [Event ''input'' True True False, Event ''change'' True True False]
   \<and> dispatched (step Toggle (initial readmeElement)) = []"
proof -
  have l: "listening (initial readmeElement)"
    by code_simp
  have d: "\<not> get_disabled (initial readmeElement)"
    by code_simp
  have e: "dispatched (initial readmeElement) = []"
    by code_simp
  have u: "\<not> userOperation Toggle"
    by (simp add: userOperation_def)
  from events_only_on_user_interaction [of "[]" readmeElement "''Enter''" _ _ Toggle] l d e u
  show ?thesis
    by (simp add: Let_def)
qed

text \<open>
  Claim C6.  When the \<open>disabled\<close> property is true, the click handler and the key
  handler return at once: the whole state of the element, the list of dispatched
  events included, is what it was, and the key handler does not even prevent the
  default action.
\<close>

theorem disabled_ignores_click_and_keys:
  "get_disabled s \<Longrightarrow>
     onClick s = s \<and> onKeyDown k s = (s, False) \<and> step UserClick s = s
     \<and> step (UserKeyDown k) s = s"
  by (simp add: onClick_def onKeyDown_def)

theorem disabled_ignores_click_and_keys_witness:
  "get_disabled (run [SetDisabled True, Connect (Some 1)] (constructor True noOwnProps))
   \<and> step UserClick (run [SetDisabled True, Connect (Some 1)] (constructor True noOwnProps)) =
       run [SetDisabled True, Connect (Some 1)] (constructor True noOwnProps)
   \<and> step (UserKeyDown ''Enter'') (run [SetDisabled True, Connect (Some 1)] (constructor True noOwnProps)) =
       run [SetDisabled True, Connect (Some 1)] (constructor True noOwnProps)"
proof -
  have d: "get_disabled (run [SetDisabled True, Connect (Some 1)] (constructor True noOwnProps))"
    by code_simp
  from disabled_ignores_click_and_keys [OF d, of "''Enter''"] d show ?thesis
    by simp
qed



text \<open>
  Claim C8.  Take any reachable element, connect it inside a form \<open>g\<close>, and let any
  operations follow that neither connect nor disconnect it.  When form \<open>g\<close> is then
  reset, the host has the \<open>checked\<close> attribute exactly when it had it at the moment of
  the connection, and likewise the \<open>indeterminate\<close> attribute; the \<open>checked\<close> property
  equals that default, and the form value and the validity state are the ones computed
  from the state after the reset.  The same holds for an element that is upgraded
  while it is connected inside a form: the defaults are the attributes it was upgraded
  with.
\<close>

theorem form_reset_restores_defaults:
  assumes "list_all keepsConnection xs"
  shows "(let s0 = run ys (initial el);
              s3 = step (FormReset g) (run xs (step (Connect (Some g)) s0))
          in hasAttribute s3 ''checked'' = hasAttribute s0 ''checked''
             \<and> hasAttribute s3 ''indeterminate'' = hasAttribute s0 ''indeterminate''
             \<and> get_checked s3 = hasAttribute s0 ''checked''
             \<and> formSynced s3 \<and> validitySynced s3)
         \<and> (let s3 = step (FormReset g) (run xs (initial (Upgraded a p al True (Some g))))
             in hasAttribute s3 ''checked'' = (map_of al ''checked'' \<noteq> None)
                \<and> hasAttribute s3 ''indeterminate'' = (map_of al ''indeterminate'' \<noteq> None)
                \<and> get_checked s3 = (map_of al ''checked'' \<noteq> None)
                \<and> formSynced s3 \<and> validitySynced s3)"
proof -
  define s0 where "s0 = run ys (initial el)"
  define s1 where "s1 = step (Connect (Some g)) s0"
  have "wellSynced s1"
    unfolding s1_def s0_def by (intro step_wellSynced reachable_wellSynced)
  moreover have s1: "defaultChecked s1 = hasAttribute s0 ''checked''"
    "defaultIndeterminate s1 = hasAttribute s0 ''indeterminate''"
    "g \<in> set (resetForms s1)" "isConnected s1"
    by (simp_all add: s1_def connectedCallback_defaults hasAttribute_def)
  ultimately have first: "let s3 = step (FormReset g) (run xs s1)
      in hasAttribute s3 ''checked'' = hasAttribute s0 ''checked''
         \<and> hasAttribute s3 ''indeterminate'' = hasAttribute s0 ''indeterminate''
         \<and> get_checked s3 = hasAttribute s0 ''checked''
         \<and> formSynced s3 \<and> validitySynced s3"
    using reset_after_connection [of s1 g xs] assms by (simp add: Let_def)
  define u where "u = initial (Upgraded a p al True (Some g))"
  have "wellSynced u"
    unfolding u_def by (rule initial_wellSynced)
  moreover have "defaultChecked u = (map_of al ''checked'' \<noteq> None)"
    "defaultIndeterminate u = (map_of al ''indeterminate'' \<noteq> None)"
    "g \<in> set (resetForms u)" "isConnected u"
    by (simp_all add: u_def upgraded_defaults)
  ultimately have second: "let s3 = step (FormReset g) (run xs u)
      in hasAttribute s3 ''checked'' = (map_of al ''checked'' \<noteq> None)
         \<and> hasAttribute s3 ''indeterminate'' = (map_of al ''indeterminate'' \<noteq> None)
         \<and> get_checked s3 = (map_of al ''checked'' \<noteq> None)
         \<and> formSynced s3 \<and> validitySynced s3"
    using reset_after_connection [of u g xs] assms by (simp add: Let_def)
  from first second show ?thesis
    unfolding s1_def s0_def u_def Let_def by blast
qed

theorem form_reset_restores_defaults_witness:
  "list_all keepsConnection [UserClick, SetIndeterminate True, Toggle]
   \<and> (let s0 = run [Disconnect False] (initial readmeElement);
           s3 = step (FormReset 2) (run [UserClick, SetIndeterminate True, Toggle]
                  (step (Connect (Some 2)) s0))
       in hasAttribute s3 ''checked'' = hasAttribute s0 ''checked''
          \<and> hasAttribute s3 ''indeterminate'' = hasAttribute s0 ''indeterminate''
          \<and> get_checked s3 = hasAttribute s0 ''checked''
          \<and> formSynced s3 \<and> validitySynced s3)
   \<and> (let s3 = step (FormReset 2) (run [UserClick, SetIndeterminate True, Toggle]
                  (initial (Upgraded True noOwnProps [(''checked'', [])] True (Some 2))))
       in hasAttribute s3 ''checked'' \<and> \<not> hasAttribute s3 ''indeterminate''
          \<and> get_checked s3)"
proof -
  have k: "list_all keepsConnection [UserClick, SetIndeterminate True, Toggle]"
    by (simp add: keepsConnection_def)
  from form_reset_restores_defaults
    [OF k, of "[Disconnect False]" readmeElement 2 True noOwnProps "[(''checked'', [])]"] k
  show ?thesis
    by (simp add: Let_def)
qed

text \<open>
  Claim C9.  Without a \<open>value\<close> attribute the value property is the string "on".
  Assigning null to the value property removes the attribute, so the value property
  is "on" afterwards.
\<close>

theorem value_defaults_to_on:
  "(\<not> hasAttribute s ''value'' \<longrightarrow> get_value s = ''on'')
   \<and> \<not> hasAttribute (set_value None s) ''value''
   \<and> get_value (set_value None s) = ''on''"
  by (simp add: get_value_def hasAttribute_def getAttribute_def set_value_def)

theorem value_defaults_to_on_witness:
  "\<not> hasAttribute (constructor True noOwnProps) ''value''
   \<and> get_value (constructor True noOwnProps) = ''on''
   \<and> get_value (set_value None (set_value (Some ''yes'') (constructor True noOwnProps))) = ''on''"
proof -
  have h: "\<not> hasAttribute (constructor True noOwnProps) ''value''"
    by code_simp
  from value_defaults_to_on [of "constructor True noOwnProps"]
    value_defaults_to_on [of "set_value (Some ''yes'') (constructor True noOwnProps)"] h
  show ?thesis
    by simp
qed

text \<open>
  A click turns \<open>indeterminate\<close> off on the native checkbox before the two handlers run,
  so their test of it fails and they never remove the attribute.
\<close>

lemma nativeClick_indeterminate_attribute:
  "attrs (nativeClick s) ''indeterminate'' = attrs s ''indeterminate''"
  by (simp add: nativeClick_def onNativeInput_def onNativeChange_def Let_def
      setAttribute_native removeAttribute_native)

text \<open>
  Claim C10.  It fails on the code: after a click or an Enter key on a connected
  element with the \<open>indeterminate\<close> attribute, both handlers have run (their events
  are dispatched) and the attribute is still there; the same holds for a click that
  follows \<open>toggle()\<close>.
\<close>

theorem click_leaves_indeterminate_attribute:
  "hasAttribute (run [SetIndeterminate True, Connect None] (constructor True noOwnProps))
     ''indeterminate''
   \<and> hasAttribute (run [SetIndeterminate True, Connect None, UserClick]
        (constructor True noOwnProps)) ''indeterminate''
   \<and> dispatched (run [SetIndeterminate True, Connect None, UserClick]
        (constructor True noOwnProps))
       = [Event ''input'' True True False, Event ''change'' True True False,
          Event ''click'' True True True]
   \<and> hasAttribute (run [SetIndeterminate True, Connect None, UserKeyDown ''Enter'']
        (constructor True noOwnProps)) ''indeterminate''
   \<and> hasAttribute (run [SetIndeterminate True, Toggle, Connect None, UserClick]
        (constructor True noOwnProps)) ''indeterminate''"
  by code_simp

end
